theory Spec2Isabelle
  imports Complex_Main "HOL-Library.AList" "HOL-Library.Sublist"
begin

section \<open>Rasters, files and the raster library\<close>

text \<open>
  The Python exceptions that the modelled code can meet. \<open>RasterioIOError\<close> is what
  \<^verbatim>\<open>rasterio.open\<close> raises for a file it cannot open, \<open>CRSError\<close> what the library
  raises for a coordinate reference system it cannot use, \<open>ValueError\<close> what numpy raises
  for operands that cannot be broadcast together (and for a reduction of an empty array),
  \<open>AssertionError\<close> what a failed \<^verbatim>\<open>assert\<close> raises.
\<close>

datatype error = RasterioIOError | CRSError | ValueError | AssertionError

text \<open>
  A coordinate reference system as rasterio compares it with \<^verbatim>\<open>==\<close>: an EPSG code, or
  none at all for a file without georeference.
\<close>

datatype crs = EPSG nat | NoCRS

text \<open>
  The six coefficients \<open>(a, b, c, d, e, f)\<close> of an affine transform, and a bounding box
  \<open>(left, bottom, right, top)\<close>. Coordinates are finite numbers, modelled by reals.
\<close>

type_synonym affine = "real \<times> real \<times> real \<times> real \<times> real \<times> real"
type_synonym bounds = "real \<times> real \<times> real \<times> real"

text \<open>
  A sample of a band after \<^verbatim>\<open>astype(float)\<close>: a finite number, an infinity or NaN.
  Finite numbers are modelled by reals: the rounding and the overflow of binary64 are not
  modelled, and neither is the sign of zero.
\<close>

datatype pyfloat = Fin real | PInf | NInf | NaN

type_synonym arr = "pyfloat list list"

datatype dtype = UInt8 | UInt16 | Int16 | Float32 | Float64

text \<open>
  The entries of a rasterio profile that the code reads or sets; every file holds one
  band. A dataset is what \<^verbatim>\<open>rasterio.open\<close> gives for a file: its profile and the
  samples of band 1, row by row.
\<close>

record profile =
  p_crs :: crs
  p_transform :: affine
  p_width :: nat
  p_height :: nat
  p_dtype :: dtype

record dataset =
  ds_profile :: profile
  ds_samples :: arr

text \<open>
  A file system maps a path to a file, which is a raster or something that rasterio cannot
  open. A path that maps to nothing does not exist.
\<close>

type_synonym path = string

datatype diskfile = Raster dataset | Unreadable

type_synonym fs = "path \<Rightarrow> diskfile option"

definition exists_path :: "fs \<Rightarrow> path \<Rightarrow> bool" where
  "exists_path fsys p = (fsys p \<noteq> None)"

definition rio_open :: "fs \<Rightarrow> path \<Rightarrow> error + dataset" where
  "rio_open fsys p = (case fsys p of Some (Raster d) \<Rightarrow> Inr d | _ \<Rightarrow> Inl RasterioIOError)"

definition rio_write :: "fs \<Rightarrow> path \<Rightarrow> profile \<Rightarrow> arr \<Rightarrow> fs" where
  "rio_write fsys p prof a = fsys(p \<mapsto> Raster \<lparr>ds_profile = prof, ds_samples = a\<rparr>)"

text \<open>
  The functions of the rasterio library that the code calls and that are no code of this
  repository, taken as parameters: \<open>transform_bounds src_crs dst_crs box\<close>
  (\<^verbatim>\<open>rasterio.warp.transform_bounds\<close>), \<open>bounds_of transform width height\<close> (the
  \<^verbatim>\<open>bounds\<close> property of an open dataset, which rasterio derives from the dataset's
  transform and size) and \<open>reproject src src_transform src_crs dst_transform dst_crs
  destination\<close> (\<^verbatim>\<open>rasterio.warp.reproject\<close> with bilinear resampling), which returns
  the destination array as the call leaves it.
\<close>

record rasterio =
  transform_bounds :: "crs \<Rightarrow> crs \<Rightarrow> bounds \<Rightarrow> error + bounds"
  bounds_of :: "affine \<Rightarrow> nat \<Rightarrow> nat \<Rightarrow> bounds"
  reproject :: "arr \<Rightarrow> affine \<Rightarrow> crs \<Rightarrow> affine \<Rightarrow> crs \<Rightarrow> arr \<Rightarrow> error + arr"

definition ds_bounds :: "rasterio \<Rightarrow> dataset \<Rightarrow> bounds" where
  "ds_bounds lib src =
     bounds_of lib (p_transform (ds_profile src)) (p_width (ds_profile src))
       (p_height (ds_profile src))"

section \<open>georeference\_analysis.py\<close>

subsection \<open>GeoInfo.get\_info\<close>

text \<open>
  The dictionary that \<^verbatim>\<open>get_info\<close> returns, without its two display strings
  (\<^verbatim>\<open>'file'\<close>, and \<^verbatim>\<open>'crs'\<close> kept as the CRS itself).
\<close>

record geoinfo =
  gi_crs :: crs
  bounds_wgs84 :: bounds
  center_wgs84 :: "real \<times> real"
  shape :: "nat \<times> nat"
  pixel_size :: "real \<times> real"

definition get_info :: "rasterio \<Rightarrow> fs \<Rightarrow> path \<Rightarrow> error + geoinfo" where
  "get_info lib fsys filepath =
     (case rio_open fsys filepath of
        Inl e \<Rightarrow> Inl e
      | Inr src \<Rightarrow>
          (case (if p_crs (ds_profile src) \<noteq> EPSG 4326
                 then transform_bounds lib (p_crs (ds_profile src)) (EPSG 4326) (ds_bounds lib src)
                 else Inr (ds_bounds lib src)) of
             Inl e \<Rightarrow> Inl e
           | Inr (west, south, east, north) \<Rightarrow>
               (case p_transform (ds_profile src) of
                  (a, b, c, d, e, f) \<Rightarrow>
                    Inr \<lparr>gi_crs = p_crs (ds_profile src),
                         bounds_wgs84 = (west, south, east, north),
                         center_wgs84 = ((west + east) / 2, (south + north) / 2),
                         shape = (p_height (ds_profile src), p_width (ds_profile src)),
                         pixel_size = (\<bar>a\<bar>, \<bar>e\<bar>)\<rparr>)))"

subsection \<open>SceneAnalyzer.check\_alignment\<close>

text \<open>
  The band dictionary is an association list in insertion order. The loop over the other
  bands returns at the first band that differs; the files after it are not opened.
\<close>

type_synonym bands = "(string \<times> path) list"

fun check_others :: "rasterio \<Rightarrow> fs \<Rightarrow> geoinfo \<Rightarrow> path list \<Rightarrow> error + bool" where
  "check_others lib fsys ref_info [] = Inr True"
| "check_others lib fsys ref_info (band_file # rest) =
     (case get_info lib fsys band_file of
        Inl e \<Rightarrow> Inl e
      | Inr band_info \<Rightarrow>
          if bounds_wgs84 band_info \<noteq> bounds_wgs84 ref_info \<or> shape band_info \<noteq> shape ref_info
          then Inr False
          else check_others lib fsys ref_info rest)"

definition check_alignment :: "rasterio \<Rightarrow> fs \<Rightarrow> bands \<Rightarrow> error + bool" where
  "check_alignment lib fsys bnds =
     (if length bnds < 2 then Inr True
      else (case get_info lib fsys (hd (map snd bnds)) of
              Inl e \<Rightarrow> Inl e
            | Inr ref_info \<Rightarrow> check_others lib fsys ref_info (tl (map snd bnds))))"

subsection \<open>AlignmentChecker.check\<close>

text \<open>
  What \<^verbatim>\<open>check\<close> prints, one constructor for each \<^verbatim>\<open>print\<close> of the source. The
  reference is the first key of the dictionary; the loop skips it and compares every other
  band with it.
\<close>

datatype check_line =
    OnlyOneBand
  | CheckHeader string
  | MisalignedBand string
  | BoundsDiffer real
  | ShapeDiffers "nat \<times> nat" "nat \<times> nat"
  | AllAligned

definition max_diff :: "bounds \<Rightarrow> bounds \<Rightarrow> real" where
  "max_diff ref_bounds band_bounds =
     (case ref_bounds of (rw, rs, re, rn) \<Rightarrow>
        (case band_bounds of (bw, bs, be, bn) \<Rightarrow>
           max \<bar>rw - bw\<bar> (max \<bar>rs - bs\<bar> (max \<bar>re - be\<bar> \<bar>rn - bn\<bar>))))"

fun check_loop ::
  "rasterio \<Rightarrow> fs \<Rightarrow> string \<Rightarrow> geoinfo \<Rightarrow> bands \<Rightarrow> bool \<Rightarrow> check_line list
     \<Rightarrow> error + (bool \<times> check_line list)" where
  "check_loop lib fsys ref_band ref_info [] all_aligned out = Inr (all_aligned, out)"
| "check_loop lib fsys ref_band ref_info ((band_name, band_file) # rest) all_aligned out =
     (if band_name = ref_band then check_loop lib fsys ref_band ref_info rest all_aligned out
      else
        (case get_info lib fsys band_file of
           Inl e \<Rightarrow> Inl e
         | Inr band_info \<Rightarrow>
             (let bounds_match = (bounds_wgs84 ref_info = bounds_wgs84 band_info);
                  shape_match = (shape ref_info = shape band_info)
              in if \<not> (bounds_match \<and> shape_match)
                 then check_loop lib fsys ref_band ref_info rest False
                        (out @ [MisalignedBand band_name,
                                BoundsDiffer (max_diff (bounds_wgs84 ref_info) (bounds_wgs84 band_info))]
                             @ (if shape ref_info \<noteq> shape band_info
                                then [ShapeDiffers (shape ref_info) (shape band_info)] else []))
                 else check_loop lib fsys ref_band ref_info rest all_aligned out)))"

definition check :: "rasterio \<Rightarrow> fs \<Rightarrow> bands \<Rightarrow> error + check_line list" where
  "check lib fsys bnds =
     (if length bnds < 2 then Inr [OnlyOneBand]
      else
        (let ref_band = hd (map fst bnds) in
         (case get_info lib fsys (the (map_of bnds ref_band)) of
            Inl e \<Rightarrow> Inl e
          | Inr ref_info \<Rightarrow>
              (case check_loop lib fsys ref_band ref_info bnds True [CheckHeader ref_band] of
                 Inl e \<Rightarrow> Inl e
               | Inr (all_aligned, out) \<Rightarrow>
                   Inr (if all_aligned then out @ [AllAligned] else out)))))"

section \<open>The arithmetic of numpy arrays\<close>

text \<open>
  Addition, subtraction and division of two floats as IEEE 754 defines them on the special
  values. A finite number divided by zero gives the infinity of the number's sign (numpy
  warns and goes on), zero divided by zero gives NaN.
\<close>

fun fneg :: "pyfloat \<Rightarrow> pyfloat" where
  "fneg (Fin a) = Fin (- a)"
| "fneg PInf = NInf"
| "fneg NInf = PInf"
| "fneg NaN = NaN"

fun fadd :: "pyfloat \<Rightarrow> pyfloat \<Rightarrow> pyfloat" where
  "fadd (Fin a) (Fin b) = Fin (a + b)"
| "fadd NaN y = NaN"
| "fadd x NaN = NaN"
| "fadd PInf NInf = NaN"
| "fadd NInf PInf = NaN"
| "fadd PInf y = PInf"
| "fadd x PInf = PInf"
| "fadd NInf y = NInf"
| "fadd x NInf = NInf"

definition fsub :: "pyfloat \<Rightarrow> pyfloat \<Rightarrow> pyfloat" where
  "fsub x y = fadd x (fneg y)"

fun fdiv :: "pyfloat \<Rightarrow> pyfloat \<Rightarrow> pyfloat" where
  "fdiv (Fin a) (Fin b) =
     (if b = 0 then (if a = 0 then NaN else if 0 < a then PInf else NInf) else Fin (a / b))"
| "fdiv NaN y = NaN"
| "fdiv x NaN = NaN"
| "fdiv (Fin a) y = Fin 0"
| "fdiv PInf (Fin b) = (if b < 0 then NInf else PInf)"
| "fdiv NInf (Fin b) = (if b < 0 then PInf else NInf)"
| "fdiv x y = NaN"

text \<open>Comparisons: every comparison with NaN is false.\<close>

definition feq :: "pyfloat \<Rightarrow> pyfloat \<Rightarrow> bool" where
  "feq x y = (x \<noteq> NaN \<and> x = y)"

fun fle :: "pyfloat \<Rightarrow> pyfloat \<Rightarrow> bool" where
  "fle (Fin a) (Fin b) = (a \<le> b)"
| "fle NaN y = False"
| "fle x NaN = False"
| "fle NInf y = True"
| "fle x PInf = True"
| "fle x y = False"

definition flt :: "pyfloat \<Rightarrow> pyfloat \<Rightarrow> bool" where
  "flt x y = (fle x y \<and> \<not> fle y x)"

text \<open>
  Two-dimensional arrays are lists of rows; the band of a raster has at least one row and
  one column. A binary operation of numpy broadcasts its operands: along each axis the two
  sizes must be equal or one of them must be 1, and the operand of size 1 is repeated;
  otherwise numpy raises \<open>ValueError\<close>.
\<close>

definition nrows :: "'a list list \<Rightarrow> nat" where
  "nrows x = length x"

definition ncols :: "'a list list \<Rightarrow> nat" where
  "ncols x = (case x of [] \<Rightarrow> 0 | r # _ \<Rightarrow> length r)"

definition bdim :: "nat \<Rightarrow> nat \<Rightarrow> nat option" where
  "bdim m n = (if m = n then Some m else if m = 1 then Some n else if n = 1 then Some m else None)"

definition stretch :: "nat \<Rightarrow> 'a list \<Rightarrow> 'a list" where
  "stretch n xs = (if length xs = n then xs else replicate n (hd xs))"

definition broadcast2 ::
  "('a \<Rightarrow> 'b \<Rightarrow> 'c) \<Rightarrow> 'a list list \<Rightarrow> 'b list list \<Rightarrow> error + 'c list list" where
  "broadcast2 f x y =
     (case bdim (nrows x) (nrows y) of
        None \<Rightarrow> Inl ValueError
      | Some h \<Rightarrow>
          (case bdim (ncols x) (ncols y) of
             None \<Rightarrow> Inl ValueError
           | Some w \<Rightarrow>
               Inr (map2 (\<lambda>rx ry. map2 f (stretch w rx) (stretch w ry))
                      (stretch h x) (stretch h y))))"

definition arr_add :: "arr \<Rightarrow> arr \<Rightarrow> error + arr" where
  "arr_add = broadcast2 fadd"

definition arr_sub :: "arr \<Rightarrow> arr \<Rightarrow> error + arr" where
  "arr_sub = broadcast2 fsub"

definition arr_div :: "arr \<Rightarrow> arr \<Rightarrow> error + arr" where
  "arr_div = broadcast2 fdiv"

text \<open>
  \<^verbatim>\<open>x == v\<close> for a scalar \<open>v\<close>, and \<^verbatim>\<open>np.where(cond, v, x)\<close> for a scalar \<open>v\<close>,
  which broadcasts its condition and \<open>x\<close>.
\<close>

definition arr_eq_scalar :: "arr \<Rightarrow> pyfloat \<Rightarrow> bool list list" where
  "arr_eq_scalar x v = map (map (\<lambda>s. feq s v)) x"

definition np_where :: "bool list list \<Rightarrow> pyfloat \<Rightarrow> arr \<Rightarrow> error + arr" where
  "np_where cond v x = broadcast2 (\<lambda>c s. if c then v else s) cond x"

text \<open>
  \<^verbatim>\<open>np.nanmin\<close> and \<^verbatim>\<open>np.nanmax\<close> reduce the whole array with the minimum and the
  maximum that ignore NaN: the result is NaN only when every sample is NaN (numpy warns of
  an all-NaN slice), and an empty array raises \<open>ValueError\<close>.
\<close>

definition fmin :: "pyfloat \<Rightarrow> pyfloat \<Rightarrow> pyfloat" where
  "fmin x y = (if x = NaN then y else if y = NaN then x else if fle x y then x else y)"

definition fmax :: "pyfloat \<Rightarrow> pyfloat \<Rightarrow> pyfloat" where
  "fmax x y = (if x = NaN then y else if y = NaN then x else if fle x y then y else x)"

definition nanmin :: "arr \<Rightarrow> error + pyfloat" where
  "nanmin x = (case concat x of [] \<Rightarrow> Inl ValueError | s # ss \<Rightarrow> Inr (fold fmin ss s))"

definition nanmax :: "arr \<Rightarrow> error + pyfloat" where
  "nanmax x = (case concat x of [] \<Rightarrow> Inl ValueError | s # ss \<Rightarrow> Inr (fold fmax ss s))"

text \<open>\<^verbatim>\<open>np.clip(x, lo, hi)\<close>: NaN stays NaN.\<close>

definition clip1 :: "pyfloat \<Rightarrow> pyfloat \<Rightarrow> pyfloat \<Rightarrow> pyfloat" where
  "clip1 lo hi s = (if s = NaN then NaN else if flt s lo then lo else if flt hi s then hi else s)"

definition np_clip :: "arr \<Rightarrow> pyfloat \<Rightarrow> pyfloat \<Rightarrow> arr" where
  "np_clip x lo hi = map (map (clip1 lo hi)) x"

text \<open>The in-place \<^verbatim>\<open>x[cond] = v\<close> for a boolean mask of the shape of \<open>x\<close>.\<close>

definition set_where :: "arr \<Rightarrow> bool list list \<Rightarrow> pyfloat \<Rightarrow> arr" where
  "set_where x cond v = map2 (\<lambda>rx rc. map2 (\<lambda>s c. if c then v else s) rx rc) x cond"

section \<open>The vegetation index\<close>

text \<open>\<^verbatim>\<open>(nir - red) / (nir + red)\<close>, common to the three scripts.\<close>

definition ndvi_ratio :: "arr \<Rightarrow> arr \<Rightarrow> error + arr" where
  "ndvi_ratio nir red =
     (case arr_sub nir red of
        Inl e \<Rightarrow> Inl e
      | Inr num \<Rightarrow> (case arr_add nir red of Inl e \<Rightarrow> Inl e | Inr den \<Rightarrow> arr_div num den))"

text \<open>
  Both \<^verbatim>\<open>vegetation-ortho.py\<close> scripts then mask the samples where
  \<^verbatim>\<open>nir + red == 0\<close> with NaN.
\<close>

definition ndvi_masked :: "arr \<Rightarrow> arr \<Rightarrow> error + arr" where
  "ndvi_masked nir red =
     (case ndvi_ratio nir red of
        Inl e \<Rightarrow> Inl e
      | Inr ndvi \<Rightarrow>
          (case arr_add nir red of
             Inl e \<Rightarrow> Inl e
           | Inr s \<Rightarrow> Inr (set_where ndvi (arr_eq_scalar s (Fin 0)) NaN)))"

text \<open>The chained comparison \<^verbatim>\<open>-1 <= m <= 1\<close>.\<close>

definition in_unit_range :: "pyfloat \<Rightarrow> bool" where
  "in_unit_range m = (fle (Fin (- 1)) m \<and> fle m (Fin 1))"

text \<open>
  \<^verbatim>\<open>src/vegetation-ortho.py\<close>: the masked index, then the two assertions on
  \<^verbatim>\<open>np.nanmin\<close> and \<^verbatim>\<open>np.nanmax\<close>.
\<close>

definition ndvi_asserted :: "arr \<Rightarrow> arr \<Rightarrow> error + arr" where
  "ndvi_asserted nir red =
     (case ndvi_masked nir red of
        Inl e \<Rightarrow> Inl e
      | Inr ndvi \<Rightarrow>
          (case nanmin ndvi of
             Inl e \<Rightarrow> Inl e
           | Inr lo \<Rightarrow>
               if \<not> in_unit_range lo then Inl AssertionError
               else (case nanmax ndvi of
                       Inl e \<Rightarrow> Inl e
                     | Inr hi \<Rightarrow> if \<not> in_unit_range hi then Inl AssertionError else Inr ndvi)))"

text \<open>The \<^verbatim>\<open>vegetation-ortho.py\<close> at the top of the repository: the masked index, clipped.\<close>

definition ndvi_clipped :: "arr \<Rightarrow> arr \<Rightarrow> error + arr" where
  "ndvi_clipped nir red =
     (case ndvi_masked nir red of
        Inl e \<Rightarrow> Inl e
      | Inr ndvi \<Rightarrow> Inr (np_clip ndvi (Fin (- 1)) (Fin 1)))"

text \<open>
  \<^verbatim>\<open>process_aligned_ndvi\<close> of \<^verbatim>\<open>vegetation-ortho-aligned.py\<close>: the index, with 0 where
  \<^verbatim>\<open>nir + red == 0\<close>; no assertion and no clipping.
\<close>

definition ndvi_zero_filled :: "arr \<Rightarrow> arr \<Rightarrow> error + arr" where
  "ndvi_zero_filled nir red =
     (case ndvi_ratio nir red of
        Inl e \<Rightarrow> Inl e
      | Inr ndvi \<Rightarrow>
          (case arr_add nir red of
             Inl e \<Rightarrow> Inl e
           | Inr s \<Rightarrow> np_where (arr_eq_scalar s (Fin 0)) (Fin 0) ndvi))"

text \<open>
  One pass of the loop of \<^verbatim>\<open>src/vegetation-ortho.py\<close> for a red and a near-infrared
  file: both bands are read, the index is computed and asserted, and the index is written
  with the red band's profile, its type set to float32. The result is the profile and the
  array that are handed to the writer.
\<close>

definition ndvi_scene :: "fs \<Rightarrow> path \<Rightarrow> path \<Rightarrow> error + (profile \<times> arr)" where
  "ndvi_scene fsys red_path nir_path =
     (case rio_open fsys red_path of
        Inl e \<Rightarrow> Inl e
      | Inr red_src \<Rightarrow>
          (case rio_open fsys nir_path of
             Inl e \<Rightarrow> Inl e
           | Inr nir_src \<Rightarrow>
               (case ndvi_asserted (ds_samples nir_src) (ds_samples red_src) of
                  Inl e \<Rightarrow> Inl e
                | Inr ndvi \<Rightarrow> Inr ((ds_profile red_src)\<lparr>p_dtype := Float32\<rparr>, ndvi))))"

section \<open>Strings and paths\<close>

text \<open>
  \<^verbatim>\<open>str.replace(old, new)\<close>: every occurrence of \<open>old\<close>, from the left and without
  overlap. For an empty \<open>old\<close>, Python puts \<open>new\<close> before every character and at the end.
\<close>

function str_replace :: "string \<Rightarrow> string \<Rightarrow> string \<Rightarrow> string" where
  "str_replace old new [] = (if old = [] then new else [])"
| "str_replace old new (c # cs) =
     (if old = [] then new @ c # str_replace old new cs
      else if prefix old (c # cs) then new @ str_replace old new (drop (length old) (c # cs))
      else c # str_replace old new cs)"
  by pat_completeness auto
termination
  by (relation "measure (\<lambda>(old, new, s). length s)") auto

definition joinpath :: "path \<Rightarrow> string \<Rightarrow> path" where
  "joinpath dir name = dir @ ''/'' @ name"

section \<open>band\_aligner.py\<close>

subsection \<open>BandAligner.\_find\_scenes\<close>

text \<open>
  \<open>listing\<close> holds the names of the entries of the data directory, in the order in which
  the glob visits them. A name matches \<^verbatim>\<open>*_SR_B4.TIF\<close> when it ends with
  \<^verbatim>\<open>_SR_B4.TIF\<close>. The dictionary of scenes is an association list in insertion order:
  assigning to a key that is present replaces its value in place.
\<close>

type_synonym scenes = "(string \<times> bands) list"

definition glob_sr_b4 :: "string \<Rightarrow> bool" where
  "glob_sr_b4 name = suffix ''_SR_B4.TIF'' name"

fun find_scenes_loop :: "path \<Rightarrow> fs \<Rightarrow> string list \<Rightarrow> scenes \<Rightarrow> scenes" where
  "find_scenes_loop data_dir fsys [] scns = scns"
| "find_scenes_loop data_dir fsys (name # rest) scns =
     (let file = joinpath data_dir name;
          scene_name = str_replace ''_SR_B4.TIF'' [] name;
          b5_file = joinpath data_dir (str_replace ''B4.TIF'' ''B5.TIF'' name)
      in find_scenes_loop data_dir fsys rest
           (AList.update scene_name
              (if exists_path fsys b5_file then [(''B4'', file), (''B5'', b5_file)]
               else [(''B4'', file)])
              scns))"

definition find_scenes :: "path \<Rightarrow> fs \<Rightarrow> string list \<Rightarrow> scenes" where
  "find_scenes data_dir fsys listing = find_scenes_loop data_dir fsys (filter glob_sr_b4 listing) []"

subsection \<open>align\_band\_to\_reference\<close>

text \<open>
  The method of \<^verbatim>\<open>BandAligner\<close> and the function of the same name in
  \<^verbatim>\<open>vegetation-ortho-aligned.py\<close>: the first writes with a copy of the reference's
  profile whose type is the source's, the second with the reference's height, width, CRS
  and transform and the source's type, which is the same profile here.
\<close>

definition align_band_to_reference :: "rasterio \<Rightarrow> fs \<Rightarrow> path \<Rightarrow> path \<Rightarrow> path \<Rightarrow> error + fs" where
  "align_band_to_reference lib fsys band_file reference_file output_file =
     (case rio_open fsys reference_file of
        Inl e \<Rightarrow> Inl e
      | Inr ref \<Rightarrow>
          (case rio_open fsys band_file of
             Inl e \<Rightarrow> Inl e
           | Inr src \<Rightarrow>
               (case reproject lib (ds_samples src)
                       (p_transform (ds_profile src)) (p_crs (ds_profile src))
                       (p_transform (ds_profile ref)) (p_crs (ds_profile ref))
                       (replicate (p_height (ds_profile ref))
                          (replicate (p_width (ds_profile ref)) (Fin 0))) of
                  Inl e \<Rightarrow> Inl e
                | Inr aligned_data \<Rightarrow>
                    Inr (rio_write fsys output_file
                           ((ds_profile ref)\<lparr>p_dtype := p_dtype (ds_profile src)\<rparr>)
                           aligned_data))))"

subsection \<open>BandAligner.align\_scene\<close>




subsection \<open>BandAligner.align\_all\_scenes\<close>




section \<open>vegetation-ortho-aligned.py\<close>

text \<open>
  The directories that \<^verbatim>\<open>process_aligned_ndvi\<close> derives from the root of the
  repository.
\<close>

definition data_filepath :: "path \<Rightarrow> path" where
  "data_filepath repo_root = joinpath (joinpath repo_root ''src'') ''usgs_data''"

definition ndvi_output_dir :: "path \<Rightarrow> path" where
  "ndvi_output_dir repo_root = joinpath repo_root ''data''"

definition aligned_dir :: "path \<Rightarrow> path" where
  "aligned_dir repo_root = joinpath (ndvi_output_dir repo_root) ''aligned_bands''"

text \<open>What the loop prints at its two ends: no B5 file for the scene, or the index saved.\<close>

datatype ndvi_line = NoMatchingB5 string | NdviSaved path

text \<open>
  The body of the loop for the B4 file named \<open>f\<close>. A scene without its B5 file is
  reported and skipped (\<^verbatim>\<open>continue\<close>); nothing else is caught, so every exception leaves
  the body, and the files written before it stay written.
\<close>

definition process_scene :: "rasterio \<Rightarrow> path \<Rightarrow> string \<Rightarrow> fs \<Rightarrow> (error + ndvi_line) \<times> fs" where
  "process_scene lib repo_root f fsys =
     (let red_path = joinpath (data_filepath repo_root) f;
          scene_name = str_replace ''_SR_B4.TIF'' [] f;
          nir_path = str_replace ''B4.TIF'' ''B5.TIF'' red_path
      in if \<not> exists_path fsys nir_path then (Inr (NoMatchingB5 f), fsys)
         else
           (let aligned_red = joinpath (aligned_dir repo_root) (scene_name @ ''_B4_aligned.TIF'');
                aligned_nir = joinpath (aligned_dir repo_root) (scene_name @ ''_B5_aligned.TIF'');
                ndvi_output = joinpath (ndvi_output_dir repo_root) (''ndvi_aligned_'' @ scene_name @ ''.tif'')
            in (case align_band_to_reference lib fsys nir_path red_path aligned_nir of
                  Inl e \<Rightarrow> (Inl e, fsys)
                | Inr fs1 \<Rightarrow>
                    (case rio_open fs1 red_path of
                       Inl e \<Rightarrow> (Inl e, fs1)
                     | Inr src \<Rightarrow>
                         (let fs2 = rio_write fs1 aligned_red (ds_profile src) (ds_samples src) in
                          (case rio_open fs2 aligned_red of
                             Inl e \<Rightarrow> (Inl e, fs2)
                           | Inr red_src \<Rightarrow>
                               (case rio_open fs2 aligned_nir of
                                  Inl e \<Rightarrow> (Inl e, fs2)
                                | Inr nir_src \<Rightarrow>
                                    (case ndvi_zero_filled (ds_samples nir_src) (ds_samples red_src) of
                                       Inl e \<Rightarrow> (Inl e, fs2)
                                     | Inr ndvi \<Rightarrow>
                                         (Inr (NdviSaved ndvi_output),
                                          rio_write fs2 ndvi_output
                                            ((ds_profile red_src)\<lparr>p_dtype := Float32\<rparr>) ndvi)))))))))"





text \<open>
  The paths of the red and of the near-infrared file of a scene, as the loop of
  \<^verbatim>\<open>process_aligned_ndvi\<close> builds them from the name \<open>f\<close> of the B4 file.
\<close>

definition red_path_of :: "path \<Rightarrow> string \<Rightarrow> path" where
  "red_path_of repo_root f = joinpath (data_filepath repo_root) f"

definition nir_path_of :: "path \<Rightarrow> string \<Rightarrow> path" where
  "nir_path_of repo_root f = str_replace ''B4.TIF'' ''B5.TIF'' (red_path_of repo_root f)"

text \<open>Every sample of an array that is not NaN lies in the closed interval from -1 to 1.\<close>

definition all_in_range :: "arr \<Rightarrow> bool" where
  "all_in_range a = (\<forall>row\<in>set a. \<forall>s\<in>set row. s \<noteq> NaN \<longrightarrow> in_unit_range s)"

text \<open>An array of \<open>h\<close> rows of \<open>w\<close> samples each.\<close>

definition rect :: "nat \<Rightarrow> nat \<Rightarrow> 'a list list \<Rightarrow> bool" where
  "rect h w a = (length a = h \<and> (\<forall>r\<in>set a. length r = w))"

text \<open>
  The last part of the body of the loop on its own: the index is computed from the two
  aligned files and written with the profile of the aligned red band, its type set to
  float32.
\<close>

definition aligned_ndvi_step :: "fs \<Rightarrow> path \<Rightarrow> path \<Rightarrow> path \<Rightarrow> (error + ndvi_line) \<times> fs" where
  "aligned_ndvi_step fsys aligned_red aligned_nir ndvi_output =
     (case rio_open fsys aligned_red of
        Inl e \<Rightarrow> (Inl e, fsys)
      | Inr red_src \<Rightarrow>
          (case rio_open fsys aligned_nir of
             Inl e \<Rightarrow> (Inl e, fsys)
           | Inr nir_src \<Rightarrow>
               (case ndvi_zero_filled (ds_samples nir_src) (ds_samples red_src) of
                  Inl e \<Rightarrow> (Inl e, fsys)
                | Inr ndvi \<Rightarrow>
                    (Inr (NdviSaved ndvi_output),
                     rio_write fsys ndvi_output
                       ((ds_profile red_src)\<lparr>p_dtype := Float32\<rparr>) ndvi))))"

text \<open>
  The sample that \<^verbatim>\<open>process_aligned_ndvi\<close> computes from a near-infrared and a red
  sample.
\<close>

definition zero_filled_px :: "pyfloat \<Rightarrow> pyfloat \<Rightarrow> pyfloat" where
  "zero_filled_px n r =
     (if feq (fadd n r) (Fin 0) then Fin 0 else fdiv (fsub n r) (fadd n r))"

text \<open>Every sample of an array is a finite number that is not negative.\<close>

definition nonneg :: "arr \<Rightarrow> bool" where
  "nonneg a = (\<forall>row\<in>set a. \<forall>s\<in>set row. case s of Fin v \<Rightarrow> 0 \<le> v | _ \<Rightarrow> False)"



section \<open>Example inputs\<close>

text \<open>
  A stand-in for the library, to evaluate the functions on examples: bounds of a north-up
  raster, a CRS conversion that leaves a box as it is, and a resampling that copies the
  source when it has the shape of the destination and leaves the destination as it is
  otherwise. The examples that refute a claim do not depend on the last two, except the
  one that names the resampling it uses.
\<close>

definition example_lib :: rasterio where
  "example_lib =
     \<lparr>transform_bounds = (\<lambda>src_crs dst_crs box. Inr box),
      bounds_of = (\<lambda>t w h. case t of (a, b, c, d, e, f) \<Rightarrow> (c, f + e * real h, c + a * real w, f)),
      reproject = (\<lambda>src src_transform src_crs dst_transform dst_crs destination.
                     Inr (if map length src = map length destination then src else destination))\<rparr>"

text \<open>A 2 by 2 raster in WGS84 whose left edge is at longitude \<open>x0\<close>, and one in UTM.\<close>

definition wgs84_profile :: "real \<Rightarrow> profile" where
  "wgs84_profile x0 =
     \<lparr>p_crs = EPSG 4326, p_transform = (1 / 4, 0, x0, 0, - (1 / 4), 45),
      p_width = 2, p_height = 2, p_dtype = UInt16\<rparr>"

definition utm_profile :: profile where
  "utm_profile =
     \<lparr>p_crs = EPSG 32610, p_transform = (30, 0, 500000, 0, - 30, 4000000),
      p_width = 2, p_height = 2, p_dtype = UInt16\<rparr>"

definition flat :: "real \<Rightarrow> arr" where
  "flat v = [[Fin v, Fin v], [Fin v, Fin v]]"

text \<open>
  Two bands of one scene, of the same shape and CRS, the second shifted east by
  \<open>10\<^sup>-\<^sup>7\<close> degrees.
\<close>

definition shifted_fs :: fs where
  "shifted_fs =
     [''scene_B4.TIF'' \<mapsto> Raster \<lparr>ds_profile = wgs84_profile 10, ds_samples = flat 100\<rparr>,
      ''scene_B5.TIF'' \<mapsto> Raster \<lparr>ds_profile = wgs84_profile (10 + 1 / 10 ^ 7), ds_samples = flat 300\<rparr>]"

definition shifted_bands :: bands where
  "shifted_bands = [(''B4'', ''scene_B4.TIF''), (''B5'', ''scene_B5.TIF'')]"

text \<open>Two bands on one grid, and a band in UTM.\<close>

definition same_grid_fs :: fs where
  "same_grid_fs =
     [''scene_B4.TIF'' \<mapsto> Raster \<lparr>ds_profile = wgs84_profile 10, ds_samples = flat 100\<rparr>,
      ''scene_B5.TIF'' \<mapsto> Raster \<lparr>ds_profile = wgs84_profile 10, ds_samples = flat 300\<rparr>,
      ''utm_B4.TIF'' \<mapsto> Raster \<lparr>ds_profile = utm_profile, ds_samples = flat 100\<rparr>]"

text \<open>The same library when no CRS conversion is available.\<close>

definition no_conversion_lib :: rasterio where
  "no_conversion_lib = example_lib\<lparr>transform_bounds := (\<lambda>src_crs dst_crs box. Inl CRSError)\<rparr>"

text \<open>
  A data directory with a scene that has both bands, and a B5 file of another scene that
  has no B4 file.
\<close>

definition scene_listing :: "string list" where
  "scene_listing = [''a_SR_B5.TIF'', ''a_SR_B4.TIF'', ''b_SR_B5.TIF'']"

definition scene_fs :: fs where
  "scene_fs =
     [''d/a_SR_B4.TIF'' \<mapsto> Raster \<lparr>ds_profile = wgs84_profile 10, ds_samples = flat 100\<rparr>,
      ''d/a_SR_B5.TIF'' \<mapsto> Raster \<lparr>ds_profile = wgs84_profile 10, ds_samples = flat 300\<rparr>,
      ''d/b_SR_B5.TIF'' \<mapsto> Raster \<lparr>ds_profile = wgs84_profile 10, ds_samples = flat 300\<rparr>]"

text \<open>
  The file system after the UTM band has been aligned to the WGS84 band \<^verbatim>\<open>scene_B4.TIF\<close>
  with the stand-in library.
\<close>

definition aligned_fs :: fs where
  "aligned_fs =
     same_grid_fs(''out.TIF'' \<mapsto>
       Raster \<lparr>ds_profile = wgs84_profile 10, ds_samples = flat 100\<rparr>)"






text \<open>A red band in WGS84 and a near-infrared band of the same shape in UTM.\<close>

definition mixed_fs :: fs where
  "mixed_fs =
     [''scene_B4.TIF'' \<mapsto> Raster \<lparr>ds_profile = wgs84_profile 10, ds_samples = flat 100\<rparr>,
      ''scene_B5.TIF'' \<mapsto> Raster \<lparr>ds_profile = utm_profile, ds_samples = flat 300\<rparr>]"

text \<open>A red band of 2 by 2 samples and a near-infrared band of 1 by 3 samples.\<close>

definition odd_shape_fs :: fs where
  "odd_shape_fs =
     [''scene_B4.TIF'' \<mapsto> Raster \<lparr>ds_profile = wgs84_profile 10, ds_samples = flat 100\<rparr>,
      ''scene_B5.TIF'' \<mapsto>
         Raster \<lparr>ds_profile = (wgs84_profile 10)\<lparr>p_width := 3, p_height := 1\<rparr>,
                 ds_samples = [[Fin 1, Fin 2, Fin 3]]\<rparr>]"

text \<open>Two bands on one grid whose samples are all zero.\<close>

definition zero_fs :: fs where
  "zero_fs =
     [''scene_B4.TIF'' \<mapsto> Raster \<lparr>ds_profile = wgs84_profile 10, ds_samples = flat 0\<rparr>,
      ''scene_B5.TIF'' \<mapsto> Raster \<lparr>ds_profile = wgs84_profile 10, ds_samples = flat 0\<rparr>]"


text \<open>
  Two aligned bands of one sample each on one grid, the red sample negative, as a signed
  reflectance can be.
\<close>

definition negative_profile :: profile where
  "negative_profile = (wgs84_profile 10)\<lparr>p_width := 1, p_height := 1, p_dtype := Int16\<rparr>"

definition negative_fs :: fs where
  "negative_fs =
     [''n_B4_aligned.TIF'' \<mapsto> Raster \<lparr>ds_profile = negative_profile, ds_samples = [[Fin (- 1)]]\<rparr>,
      ''n_B5_aligned.TIF'' \<mapsto> Raster \<lparr>ds_profile = negative_profile, ds_samples = [[Fin 3]]\<rparr>]"

section \<open>Properties\<close>

subsection \<open>Helper lemmas\<close>

lemma check_others_exact:
  "map (get_info lib fsys) files = map Inr infos \<Longrightarrow>
   check_others lib fsys ref_info files =
     Inr (\<forall>i\<in>set infos. bounds_wgs84 i = bounds_wgs84 ref_info \<and> shape i = shape ref_info)"
proof (induction files arbitrary: infos)
  case Nil
  then show ?case by simp
next
  case (Cons f files)
  then obtain i rest where infos: "infos = i # rest" and f: "get_info lib fsys f = Inr i"
    and rest: "map (get_info lib fsys) files = map Inr rest"
    by (cases infos) auto
  show ?case using Cons.IH [OF rest] f infos by auto
qed

lemma check_loop_lines:
  "check_loop lib fsys rb ri bs aa out = Inr (aa', out') \<Longrightarrow>
   (MisalignedBand n \<in> set out' \<longleftrightarrow>
      MisalignedBand n \<in> set out \<or>
      (\<exists>f info. (n, f) \<in> set bs \<and> n \<noteq> rb \<and> get_info lib fsys f = Inr info \<and>
         \<not> (bounds_wgs84 ri = bounds_wgs84 info \<and> shape ri = shape info)))"
proof (induction bs arbitrary: aa out)
  case Nil
  then show ?case by simp
next
  case (Cons b bs)
  obtain bn bf where b: "b = (bn, bf)" by (cases b)
  show ?case
  proof (cases "bn = rb")
    case True
    with Cons b show ?thesis by auto
  next
    case False
    with Cons.prems b obtain info where info: "get_info lib fsys bf = Inr info"
      by (auto split: sum.splits)
    show ?thesis
    proof (cases "bounds_wgs84 ri = bounds_wgs84 info \<and> shape ri = shape info")
      case True
      with Cons.prems b False info
      have "check_loop lib fsys rb ri bs aa out = Inr (aa', out')" by (simp add: Let_def)
      from Cons.IH [OF this] show ?thesis using b False info True by auto
    next
      case F: False
      let ?out = "out @ [MisalignedBand bn,
                     BoundsDiffer (max_diff (bounds_wgs84 ri) (bounds_wgs84 info))]
                   @ (if shape ri \<noteq> shape info then [ShapeDiffers (shape ri) (shape info)] else [])"
      from Cons.prems b False info F
      have "check_loop lib fsys rb ri bs False ?out = Inr (aa', out')"
        by (simp add: Let_def)
      from Cons.IH [OF this] show ?thesis using b False info F by auto
    qed
  qed
qed

lemma check_loop_total:
  "\<forall>(n, f)\<in>set bs. n \<noteq> rb \<longrightarrow> (\<exists>i. get_info lib fsys f = Inr i) \<Longrightarrow>
   \<exists>aa' out'. check_loop lib fsys rb ri bs aa out = Inr (aa', out')"
proof (induction bs arbitrary: aa out)
  case Nil
  then show ?case by simp
next
  case (Cons b bs)
  obtain bn bf where b: "b = (bn, bf)" by (cases b)
  from Cons.prems have rest: "\<forall>(n, f)\<in>set bs. n \<noteq> rb \<longrightarrow> (\<exists>i. get_info lib fsys f = Inr i)"
    by simp
  show ?case
  proof (cases "bn = rb")
    case True
    then show ?thesis using Cons.IH [OF rest] b by simp
  next
    case False
    with Cons.prems b obtain i where i: "get_info lib fsys bf = Inr i" by auto
    show ?thesis using Cons.IH [OF rest] b False i by (simp add: Let_def)
  qed
qed

lemma check_band:
  assumes "check lib fsys bnds = Inr out" and "distinct (map fst bnds)" and "2 \<le> length bnds"
    and "get_info lib fsys (snd (hd bnds)) = Inr ref_info"
    and "(n, f) \<in> set (tl bnds)" and "get_info lib fsys f = Inr info"
  shows "MisalignedBand n \<in> set out \<longleftrightarrow>
           \<not> (bounds_wgs84 info = bounds_wgs84 ref_info \<and> shape info = shape ref_info)"
proof -
  from assms(3) obtain rb rf bs where bnds: "bnds = (rb, rf) # bs" by (cases bnds) auto
  from assms(2,5) bnds have n: "n \<noteq> rb" by force
  from assms(2,5) bnds have uniq: "\<And>f'. (n, f') \<in> set bnds \<Longrightarrow> f' = f"
    by (metis eq_key_imp_eq_value list.sel(3) list.set_intros(2))
  have ref: "the (map_of bnds rb) = rf" and rb: "hd (map fst bnds) = rb"
    and rf: "snd (hd bnds) = rf"
    using bnds by simp_all
  have len: "\<not> length bnds < 2" using assms(3) by simp
  have "check lib fsys bnds =
     (case check_loop lib fsys rb ref_info bnds True [CheckHeader rb] of
                 Inl e \<Rightarrow> Inl e
               | Inr (all_aligned, out) \<Rightarrow>
                   Inr (if all_aligned then out @ [AllAligned] else out))"
    unfolding check_def Let_def rb ref using len assms(4) [unfolded rf] by simp
  with assms(1) obtain aa out' where
    loop: "check_loop lib fsys rb ref_info bnds True [CheckHeader rb] = Inr (aa, out')"
    and out: "out = (if aa then out' @ [AllAligned] else out')"
    by (auto split: sum.splits)
  have "MisalignedBand n \<in> set out \<longleftrightarrow> MisalignedBand n \<in> set out'"
    using out by auto
  also have "\<dots> \<longleftrightarrow> (\<exists>f info. (n, f) \<in> set bnds \<and> n \<noteq> rb \<and> get_info lib fsys f = Inr info \<and>
         \<not> (bounds_wgs84 ref_info = bounds_wgs84 info \<and> shape ref_info = shape info))"
    using check_loop_lines [OF loop, of n] by simp
  also have "\<dots> \<longleftrightarrow> \<not> (bounds_wgs84 info = bounds_wgs84 ref_info \<and> shape info = shape ref_info)"
  proof -
    have mem: "(n, f) \<in> set bnds" using assms(5) bnds by auto
    show ?thesis using n uniq assms(6) mem by (metis sum.inject(2))
  qed
  finally show ?thesis .
qed

lemma check_returns:
  assumes "2 \<le> length bnds"
    and "get_info lib fsys (snd (hd bnds)) = Inr ref_info"
    and "map (get_info lib fsys) (map snd (tl bnds)) = map Inr infos"
  shows "\<exists>out. check lib fsys bnds = Inr out"
proof -
  from assms(1) obtain rb rf bs where bnds: "bnds = (rb, rf) # bs" by (cases bnds) auto
  have ref: "the (map_of bnds rb) = rf" and rb: "hd (map fst bnds) = rb"
    and rf: "snd (hd bnds) = rf"
    using bnds by simp_all
  have len: "\<not> length bnds < 2" using assms(1) by simp
  have all: "\<forall>(n, f)\<in>set bnds. n \<noteq> rb \<longrightarrow> (\<exists>i. get_info lib fsys f = Inr i)"
  proof (clarify)
    fix n f assume nf: "(n, f) \<in> set bnds" and "n \<noteq> rb"
    with bnds have "f \<in> set (map snd (tl bnds))" by force
    then have "get_info lib fsys f \<in> set (map Inr infos)"
      using assms(3) by (metis image_eqI list.set_map)
    then show "\<exists>i. get_info lib fsys f = Inr i" by auto
  qed
  from check_loop_total [OF all, of ref_info True "[CheckHeader rb]"]
  obtain aa out' where "check_loop lib fsys rb ref_info bnds True [CheckHeader rb] = Inr (aa, out')"
    by blast
  then show ?thesis
    unfolding check_def Let_def rb ref using len assms(2) [unfolded rf] by simp
qed

lemma get_info_shifted_B4:
  "get_info example_lib shifted_fs ''scene_B4.TIF'' =
     Inr \<lparr>gi_crs = EPSG 4326, bounds_wgs84 = (10, 89 / 2, 21 / 2, 45),
          center_wgs84 = (41 / 4, 179 / 4), shape = (2, 2), pixel_size = (1 / 4, 1 / 4)\<rparr>"
  by (simp add: get_info_def rio_open_def shifted_fs_def wgs84_profile_def example_lib_def
      ds_bounds_def)

lemma get_info_shifted_B5:
  "get_info example_lib shifted_fs ''scene_B5.TIF'' =
     Inr \<lparr>gi_crs = EPSG 4326, bounds_wgs84 = (10 + 1 / 10 ^ 7, 89 / 2, 21 / 2 + 1 / 10 ^ 7, 45),
          center_wgs84 = (41 / 4 + 1 / 10 ^ 7, 179 / 4), shape = (2, 2),
          pixel_size = (1 / 4, 1 / 4)\<rparr>"
  by (simp add: get_info_def rio_open_def shifted_fs_def wgs84_profile_def example_lib_def
      ds_bounds_def)

lemma get_info_same_grid_B4:
  "get_info example_lib same_grid_fs ''scene_B4.TIF'' =
     Inr \<lparr>gi_crs = EPSG 4326, bounds_wgs84 = (10, 89 / 2, 21 / 2, 45),
          center_wgs84 = (41 / 4, 179 / 4), shape = (2, 2), pixel_size = (1 / 4, 1 / 4)\<rparr>"
  by (simp add: get_info_def rio_open_def same_grid_fs_def wgs84_profile_def example_lib_def
      ds_bounds_def)

lemma get_info_same_grid_B5:
  "get_info example_lib same_grid_fs ''scene_B5.TIF'' =
     Inr \<lparr>gi_crs = EPSG 4326, bounds_wgs84 = (10, 89 / 2, 21 / 2, 45),
          center_wgs84 = (41 / 4, 179 / 4), shape = (2, 2), pixel_size = (1 / 4, 1 / 4)\<rparr>"
  by (simp add: get_info_def rio_open_def same_grid_fs_def wgs84_profile_def example_lib_def
      ds_bounds_def)

subsection \<open>The bounds in WGS84\<close>

text \<open>
  C7. \<^verbatim>\<open>get_info\<close> asks for the bounds in one CRS, WGS84 (EPSG:4326). For a file whose
  CRS is WGS84 already, the bounds it reports are the bounds of the dataset, as the library
  derives them from the transform and the size, unchanged, whatever the CRS conversion of
  the library does. Only for a file in another CRS does it pass the bounds through
  \<^verbatim>\<open>transform_bounds\<close>, and then its bounds are what the conversion returns (or its
  failure).
\<close>

theorem get_info_bounds_unchanged_in_wgs84:
  assumes "rio_open fsys filepath = Inr src"
  shows "(p_crs (ds_profile src) = EPSG 4326 \<longrightarrow>
            (\<exists>info. get_info lib fsys filepath = Inr info \<and> bounds_wgs84 info = ds_bounds lib src)) \<and>
         (p_crs (ds_profile src) \<noteq> EPSG 4326 \<longrightarrow>
            map_sum id bounds_wgs84 (get_info lib fsys filepath) =
              transform_bounds lib (p_crs (ds_profile src)) (EPSG 4326) (ds_bounds lib src))"
  using assms
  by (auto simp: get_info_def split: sum.splits prod.splits)

theorem get_info_bounds_unchanged_in_wgs84_witness:
  "rio_open same_grid_fs ''scene_B4.TIF'' =
     Inr \<lparr>ds_profile = wgs84_profile 10, ds_samples = flat 100\<rparr> \<and>
   p_crs (wgs84_profile 10) = EPSG 4326 \<and>
   map_sum id bounds_wgs84 (get_info no_conversion_lib same_grid_fs ''scene_B4.TIF'') =
     Inr (10, 89 / 2, 21 / 2, 45) \<and>
   rio_open same_grid_fs ''utm_B4.TIF'' = Inr \<lparr>ds_profile = utm_profile, ds_samples = flat 100\<rparr> \<and>
   p_crs utm_profile \<noteq> EPSG 4326 \<and>
   map_sum id bounds_wgs84 (get_info no_conversion_lib same_grid_fs ''utm_B4.TIF'') = Inl CRSError"
proof -
  have o1: "rio_open same_grid_fs ''scene_B4.TIF'' =
     Inr \<lparr>ds_profile = wgs84_profile 10, ds_samples = flat 100\<rparr>"
    by (simp add: rio_open_def same_grid_fs_def)
  have o2: "rio_open same_grid_fs ''utm_B4.TIF'' =
     Inr \<lparr>ds_profile = utm_profile, ds_samples = flat 100\<rparr>"
    by (simp add: rio_open_def same_grid_fs_def)
  have c1: "p_crs (wgs84_profile 10) = EPSG 4326" by (simp add: wgs84_profile_def)
  have c2: "p_crs utm_profile \<noteq> EPSG 4326" by (simp add: utm_profile_def)
  from get_info_bounds_unchanged_in_wgs84 [OF o1, of no_conversion_lib] c1
  have b1: "map_sum id bounds_wgs84 (get_info no_conversion_lib same_grid_fs ''scene_B4.TIF'') =
     Inr (10, 89 / 2, 21 / 2, 45)"
    by (auto simp: ds_bounds_def no_conversion_lib_def example_lib_def wgs84_profile_def)
  from get_info_bounds_unchanged_in_wgs84 [OF o2, of no_conversion_lib] c2
  have b2: "map_sum id bounds_wgs84 (get_info no_conversion_lib same_grid_fs ''utm_B4.TIF'') =
     Inl CRSError"
    by (simp add: no_conversion_lib_def example_lib_def)
  from o1 o2 c1 c2 b1 b2 show ?thesis by blast
qed

subsection \<open>Fewer than two bands\<close>

text \<open>
  C10. For a band dictionary with fewer than two entries, the empty one too,
  \<^verbatim>\<open>SceneAnalyzer.check_alignment\<close> returns true. The result does not depend on the file
  system: no band file is opened, so neither a missing nor an unreadable file can change it.
\<close>

theorem check_alignment_fewer_than_two:
  "length bnds < 2 \<Longrightarrow> check_alignment lib fsys bnds = Inr True"
  by (simp add: check_alignment_def)

theorem check_alignment_fewer_than_two_witness:
  "length [(''B4'', ''missing_B4.TIF'')] < 2 \<and>
   get_info example_lib Map.empty ''missing_B4.TIF'' = Inl RasterioIOError \<and>
   check_alignment example_lib Map.empty [(''B4'', ''missing_B4.TIF'')] = Inr True \<and>
   check_alignment example_lib Map.empty [] = Inr True"
  using check_alignment_fewer_than_two [of "[(''B4'', ''missing_B4.TIF'')]" example_lib Map.empty]
    check_alignment_fewer_than_two [of "[]" example_lib Map.empty]
  by (simp add: get_info_def rio_open_def)

subsection \<open>Alignment of bands\<close>

text \<open>
  C3, as the code has it. For a dictionary of two or more bands whose files can all be
  read, \<^verbatim>\<open>SceneAnalyzer.check_alignment\<close> returns true if and only if every band after
  the first has WGS84 bounds equal to the first band's and the same (height, width) shape,
  and \<^verbatim>\<open>AlignmentChecker.check\<close> prints a band as misaligned if and only if its bounds
  are not equal to the first band's or its shape is not the same. The comparison of the
  bounds is equality: there is no tolerance.
\<close>

theorem alignment_is_exact_equality:
  assumes "2 \<le> length bnds" and "distinct (map fst bnds)"
      and "get_info lib fsys (snd (hd bnds)) = Inr ref_info"
      and "map (get_info lib fsys) (map snd (tl bnds)) = map Inr infos"
  shows "check_alignment lib fsys bnds =
           Inr (\<forall>i\<in>set infos. bounds_wgs84 i = bounds_wgs84 ref_info \<and> shape i = shape ref_info) \<and>
         (\<exists>out. check lib fsys bnds = Inr out \<and>
            (\<forall>k<length infos.
               (MisalignedBand (fst (tl bnds ! k)) \<in> set out) =
               (\<not> (bounds_wgs84 (infos ! k) = bounds_wgs84 ref_info \<and>
                    shape (infos ! k) = shape ref_info))))"
proof (intro conjI)
  from assms(1) have "bnds \<noteq> []" by auto
  then have hd: "hd (map snd bnds) = snd (hd bnds)" and tl: "tl (map snd bnds) = map snd (tl bnds)"
    by (simp_all add: hd_map map_tl)
  have "check_alignment lib fsys bnds = check_others lib fsys ref_info (map snd (tl bnds))"
    using assms(1,3) by (simp add: check_alignment_def hd tl)
  then show "check_alignment lib fsys bnds =
           Inr (\<forall>i\<in>set infos. bounds_wgs84 i = bounds_wgs84 ref_info \<and> shape i = shape ref_info)"
    using check_others_exact [OF assms(4)] by simp
next
  from check_returns [OF assms(1,3,4)] obtain out where out: "check lib fsys bnds = Inr out" ..
  have len: "length infos = length (tl bnds)"
    using arg_cong [OF assms(4), of length] by simp
  have "(MisalignedBand (fst (tl bnds ! k)) \<in> set out) =
               (\<not> (bounds_wgs84 (infos ! k) = bounds_wgs84 ref_info \<and>
                    shape (infos ! k) = shape ref_info))" if k: "k < length infos" for k
  proof -
    have mem: "(fst (tl bnds ! k), snd (tl bnds ! k)) \<in> set (tl bnds)"
      using k len by simp
    have "map (get_info lib fsys) (map snd (tl bnds)) ! k = map Inr infos ! k"
      using assms(4) by simp
    then have gi: "get_info lib fsys (snd (tl bnds ! k)) = Inr (infos ! k)"
      using k len by simp
    show ?thesis by (rule check_band [OF out assms(2) assms(1) assms(3) mem gi])
  qed
  with out show "\<exists>out. check lib fsys bnds = Inr out \<and>
            (\<forall>k<length infos.
               (MisalignedBand (fst (tl bnds ! k)) \<in> set out) =
               (\<not> (bounds_wgs84 (infos ! k) = bounds_wgs84 ref_info \<and>
                    shape (infos ! k) = shape ref_info)))" by blast
qed

theorem alignment_is_exact_equality_witness:
  "2 \<le> length shifted_bands \<and> distinct (map fst shifted_bands) \<and>
   check_alignment example_lib same_grid_fs shifted_bands = Inr True \<and>
   check example_lib same_grid_fs shifted_bands = Inr [CheckHeader ''B4'', AllAligned]"
proof -
  let ?info = "\<lparr>gi_crs = EPSG 4326, bounds_wgs84 = (10, 89 / 2, 21 / 2, 45),
          center_wgs84 = (41 / 4, 179 / 4), shape = (2, 2), pixel_size = (1 / 4, 1 / 4)\<rparr>"
  have h1: "2 \<le> length shifted_bands" by (simp add: shifted_bands_def)
  have h2: "distinct (map fst shifted_bands)" by (simp add: shifted_bands_def)
  have h3: "get_info example_lib same_grid_fs (snd (hd shifted_bands)) = Inr ?info"
    by (simp add: shifted_bands_def get_info_same_grid_B4)
  have h4: "map (get_info example_lib same_grid_fs) (map snd (tl shifted_bands)) = map Inr [?info]"
    by (simp add: shifted_bands_def get_info_same_grid_B5)
  from alignment_is_exact_equality [OF h1 h2 h3 h4]
  have "check_alignment example_lib same_grid_fs shifted_bands = Inr True" by simp
  moreover have "check example_lib same_grid_fs shifted_bands = Inr [CheckHeader ''B4'', AllAligned]"
    by (simp add: check_def shifted_bands_def get_info_same_grid_B4 get_info_same_grid_B5)
  ultimately show ?thesis using h1 h2 by blast
qed

text \<open>
  The counterexample to the tolerance: two bands of the same shape whose bounds differ by
  \<open>10\<^sup>-\<^sup>7\<close> degrees, less than \<open>10\<^sup>-\<^sup>6\<close>, are reported as not aligned.
\<close>

theorem alignment_tolerance_counterexample:
  "get_info example_lib shifted_fs ''scene_B4.TIF'' =
     Inr \<lparr>gi_crs = EPSG 4326, bounds_wgs84 = (10, 89 / 2, 21 / 2, 45),
          center_wgs84 = (41 / 4, 179 / 4), shape = (2, 2), pixel_size = (1 / 4, 1 / 4)\<rparr> \<and>
   get_info example_lib shifted_fs ''scene_B5.TIF'' =
     Inr \<lparr>gi_crs = EPSG 4326, bounds_wgs84 = (10 + 1 / 10 ^ 7, 89 / 2, 21 / 2 + 1 / 10 ^ 7, 45),
          center_wgs84 = (41 / 4 + 1 / 10 ^ 7, 179 / 4), shape = (2, 2),
          pixel_size = (1 / 4, 1 / 4)\<rparr> \<and>
   max_diff (10, 89 / 2, 21 / 2, 45) (10 + 1 / 10 ^ 7, 89 / 2, 21 / 2 + 1 / 10 ^ 7, 45) < 1 / 10 ^ 6 \<and>
   check_alignment example_lib shifted_fs shifted_bands = Inr False \<and>
   check example_lib shifted_fs shifted_bands =
     Inr [CheckHeader ''B4'', MisalignedBand ''B5'', BoundsDiffer (1 / 10 ^ 7)]"
  by (simp add: check_alignment_def check_def shifted_bands_def get_info_shifted_B4
      get_info_shifted_B5 max_diff_def)

subsection \<open>Scenes and their reference band\<close>

lemma set_update_subset: "set (AList.update k v al) \<subseteq> insert (k, v) (set al)"
  by (induction al) auto

lemma find_scenes_loop_origin:
  assumes "\<forall>(scene_name, scene_bands)\<in>set scns.
             \<exists>name\<in>S. scene_name = str_replace ''_SR_B4.TIF'' [] name \<and>
               map_of scene_bands ''B4'' = Some (joinpath data_dir name)"
      and "set names \<subseteq> S"
  shows "\<forall>(scene_name, scene_bands)\<in>set (find_scenes_loop data_dir fsys names scns).
             \<exists>name\<in>S. scene_name = str_replace ''_SR_B4.TIF'' [] name \<and>
               map_of scene_bands ''B4'' = Some (joinpath data_dir name)"
  using assms
proof (induction names arbitrary: scns)
  case Nil
  then show ?case by simp
next
  case (Cons name rest)
  let ?bands = "if exists_path fsys (joinpath data_dir (str_replace ''B4.TIF'' ''B5.TIF'' name))
                then [(''B4'', joinpath data_dir name),
                      (''B5'', joinpath data_dir (str_replace ''B4.TIF'' ''B5.TIF'' name))]
                else [(''B4'', joinpath data_dir name)]"
  let ?scns = "AList.update (str_replace ''_SR_B4.TIF'' [] name) ?bands scns"
  have name: "name \<in> S" using Cons.prems(2) by simp
  have "\<forall>(scene_name, scene_bands)\<in>set ?scns.
             \<exists>name\<in>S. scene_name = str_replace ''_SR_B4.TIF'' [] name \<and>
               map_of scene_bands ''B4'' = Some (joinpath data_dir name)"
  proof (clarify)
    fix sn sb assume "(sn, sb) \<in> set ?scns"
    then have "(sn, sb) = (str_replace ''_SR_B4.TIF'' [] name, ?bands) \<or> (sn, sb) \<in> set scns"
      using set_update_subset [of "str_replace ''_SR_B4.TIF'' [] name" ?bands scns] by blast
    then show "\<exists>name\<in>S. sn = str_replace ''_SR_B4.TIF'' [] name \<and>
               map_of sb ''B4'' = Some (joinpath data_dir name)"
    proof
      assume "(sn, sb) = (str_replace ''_SR_B4.TIF'' [] name, ?bands)"
      then have "sn = str_replace ''_SR_B4.TIF'' [] name \<and>
               map_of sb ''B4'' = Some (joinpath data_dir name)" by auto
      with name show ?thesis by blast
    next
      assume "(sn, sb) \<in> set scns"
      with Cons.prems(1) show ?thesis by blast
    qed
  qed
  moreover have "set rest \<subseteq> S" using Cons.prems(2) by simp
  ultimately have "\<forall>(scene_name, scene_bands)\<in>set (find_scenes_loop data_dir fsys rest ?scns).
             \<exists>name\<in>S. scene_name = str_replace ''_SR_B4.TIF'' [] name \<and>
               map_of scene_bands ''B4'' = Some (joinpath data_dir name)"
    by (rule Cons.IH)
  then show ?case by (simp add: Let_def)
qed

text \<open>
  C9. Every scene that \<^verbatim>\<open>_find_scenes\<close> returns comes from an entry of the data
  directory whose name matches \<^verbatim>\<open>*_SR_B4.TIF\<close>: the scene is named after that file,
  and its band dictionary maps \<^verbatim>\<open>'B4'\<close> to that file. So every scene holds the default
  reference band, and a directory without a matching B4 file gives no scene, whatever B5
  files it holds.
\<close>

theorem find_scenes_has_B4:
  "\<forall>(scene_name, scene_bands)\<in>set (find_scenes data_dir fsys listing).
     \<exists>name\<in>set listing. glob_sr_b4 name \<and> scene_name = str_replace ''_SR_B4.TIF'' [] name \<and>
        map_of scene_bands ''B4'' = Some (joinpath data_dir name)"
proof -
  have "\<forall>(scene_name, scene_bands)\<in>set (find_scenes data_dir fsys listing).
     \<exists>name\<in>{n \<in> set listing. glob_sr_b4 n}. scene_name = str_replace ''_SR_B4.TIF'' [] name \<and>
        map_of scene_bands ''B4'' = Some (joinpath data_dir name)"
    unfolding find_scenes_def by (rule find_scenes_loop_origin) auto
  then show ?thesis by fast
qed

theorem find_scenes_has_B4_witness:
  "find_scenes ''d'' scene_fs scene_listing =
     [(''a'', [(''B4'', ''d/a_SR_B4.TIF''), (''B5'', ''d/a_SR_B5.TIF'')])] \<and>
   glob_sr_b4 ''a_SR_B4.TIF'' \<and> \<not> glob_sr_b4 ''b_SR_B5.TIF'' \<and>
   ''a'' = str_replace ''_SR_B4.TIF'' [] ''a_SR_B4.TIF'' \<and>
   map_of [(''B4'', ''d/a_SR_B4.TIF''), (''B5'', ''d/a_SR_B5.TIF'')] ''B4'' =
     Some (joinpath ''d'' ''a_SR_B4.TIF'')"
  using find_scenes_has_B4 [of "''d''" scene_fs scene_listing]
  by (simp add: find_scenes_def scene_listing_def glob_sr_b4_def suffix_to_prefix joinpath_def
      exists_path_def scene_fs_def)

subsection \<open>The grid of an aligned band\<close>

lemma get_info_same_grid:
  assumes "rio_open fs1 p1 = Inr d1" and "rio_open fs2 p2 = Inr d2"
    and "p_crs (ds_profile d1) = p_crs (ds_profile d2)"
    and "p_transform (ds_profile d1) = p_transform (ds_profile d2)"
    and "p_width (ds_profile d1) = p_width (ds_profile d2)"
    and "p_height (ds_profile d1) = p_height (ds_profile d2)"
  shows "get_info lib fs1 p1 = get_info lib fs2 p2"
  using assms by (auto simp: get_info_def ds_bounds_def split: sum.splits prod.splits)

lemma align_band_to_reference_output:
  assumes "align_band_to_reference lib fsys band_file reference_file output_file = Inr fsys'"
  obtains ref src aligned_data where
    "rio_open fsys reference_file = Inr ref" and "rio_open fsys band_file = Inr src"
    and "fsys' = fsys(output_file \<mapsto> Raster \<lparr>ds_profile = (ds_profile ref)\<lparr>p_dtype := p_dtype (ds_profile src)\<rparr>,
                                                 ds_samples = aligned_data\<rparr>)"
  using assms
  by (auto simp: align_band_to_reference_def rio_write_def split: sum.splits)

text \<open>
  C5. When \<^verbatim>\<open>align_band_to_reference\<close> returns, the file it has written carries the
  CRS, the transform, the width and the height of the reference file, for every source band
  and whatever the resampling of the library does. Verifying the written band against the
  reference then reports alignment: whenever the georeference of the reference can be
  read, \<^verbatim>\<open>SceneAnalyzer.check_alignment\<close> returns true and \<^verbatim>\<open>AlignmentChecker.check\<close>
  prints that all bands are aligned.
\<close>

theorem aligned_band_has_reference_grid:
  assumes "align_band_to_reference lib fsys band_file reference_file output_file = Inr fsys'"
  shows "\<exists>ref out.
           rio_open fsys reference_file = Inr ref \<and> rio_open fsys' output_file = Inr out \<and>
           p_crs (ds_profile out) = p_crs (ds_profile ref) \<and>
           p_transform (ds_profile out) = p_transform (ds_profile ref) \<and>
           p_width (ds_profile out) = p_width (ds_profile ref) \<and>
           p_height (ds_profile out) = p_height (ds_profile ref) \<and>
           (\<forall>info. get_info lib fsys reference_file = Inr info \<longrightarrow>
              check_alignment lib fsys' [(r, reference_file), (b, output_file)] = Inr True \<and>
              (r \<noteq> b \<longrightarrow> check lib fsys' [(r, reference_file), (b, output_file)] =
                 Inr [CheckHeader r, AllAligned]))"
proof -
  from assms obtain ref src aligned_data where
    ref: "rio_open fsys reference_file = Inr ref" and
    src: "rio_open fsys band_file = Inr src" and
    fsys': "fsys' = fsys(output_file \<mapsto> Raster \<lparr>ds_profile = (ds_profile ref)\<lparr>p_dtype := p_dtype (ds_profile src)\<rparr>,
                                                 ds_samples = aligned_data\<rparr>)"
    by (rule align_band_to_reference_output)
  let ?out = "\<lparr>ds_profile = (ds_profile ref)\<lparr>p_dtype := p_dtype (ds_profile src)\<rparr>,
               ds_samples = aligned_data\<rparr>"
  have out: "rio_open fsys' output_file = Inr ?out" by (simp add: fsys' rio_open_def)
  have grid: "p_crs (ds_profile ?out) = p_crs (ds_profile ref)"
    "p_transform (ds_profile ?out) = p_transform (ds_profile ref)"
    "p_width (ds_profile ?out) = p_width (ds_profile ref)"
    "p_height (ds_profile ?out) = p_height (ds_profile ref)" by simp_all
  have gout: "get_info lib fsys' output_file = get_info lib fsys reference_file"
    by (rule get_info_same_grid [OF out ref grid])
  have gref: "get_info lib fsys' reference_file = get_info lib fsys reference_file"
  proof (cases "reference_file = output_file")
    case True
    then show ?thesis using gout by simp
  next
    case False
    then have "rio_open fsys' reference_file = Inr ref" using ref by (simp add: fsys' rio_open_def)
    from get_info_same_grid [OF this ref] show ?thesis by simp
  qed
  have "check_alignment lib fsys' [(r, reference_file), (b, output_file)] = Inr True \<and>
              (r \<noteq> b \<longrightarrow> check lib fsys' [(r, reference_file), (b, output_file)] =
                 Inr [CheckHeader r, AllAligned])"
    if "get_info lib fsys reference_file = Inr info" for info
    using that gout gref by (simp add: check_alignment_def check_def)
  with ref out grid show ?thesis by blast
qed

theorem aligned_band_has_reference_grid_witness:
  "align_band_to_reference example_lib same_grid_fs ''utm_B4.TIF'' ''scene_B4.TIF'' ''out.TIF'' =
     Inr aligned_fs \<and>
   rio_open same_grid_fs ''utm_B4.TIF'' = Inr \<lparr>ds_profile = utm_profile, ds_samples = flat 100\<rparr> \<and>
   rio_open aligned_fs ''out.TIF'' = Inr \<lparr>ds_profile = wgs84_profile 10, ds_samples = flat 100\<rparr> \<and>
   check_alignment example_lib aligned_fs [(''B4'', ''scene_B4.TIF''), (''B5'', ''out.TIF'')] =
     Inr True \<and>
   check example_lib aligned_fs [(''B4'', ''scene_B4.TIF''), (''B5'', ''out.TIF'')] =
     Inr [CheckHeader ''B4'', AllAligned]"
proof -
  have h: "align_band_to_reference example_lib same_grid_fs ''utm_B4.TIF'' ''scene_B4.TIF''
             ''out.TIF'' = Inr aligned_fs"
    by (simp add: align_band_to_reference_def rio_open_def rio_write_def same_grid_fs_def
        aligned_fs_def example_lib_def wgs84_profile_def utm_profile_def flat_def
        numeral_2_eq_2)
  have o1: "rio_open same_grid_fs ''utm_B4.TIF'' =
              Inr \<lparr>ds_profile = utm_profile, ds_samples = flat 100\<rparr>"
    by (simp add: rio_open_def same_grid_fs_def)
  have o2: "rio_open aligned_fs ''out.TIF'' =
              Inr \<lparr>ds_profile = wgs84_profile 10, ds_samples = flat 100\<rparr>"
    by (simp add: rio_open_def aligned_fs_def)
  from aligned_band_has_reference_grid [OF h, of "''B4''" "''B5''"] get_info_same_grid_B4
  have "check_alignment example_lib aligned_fs [(''B4'', ''scene_B4.TIF''), (''B5'', ''out.TIF'')] =
          Inr True \<and>
        check example_lib aligned_fs [(''B4'', ''scene_B4.TIF''), (''B5'', ''out.TIF'')] =
          Inr [CheckHeader ''B4'', AllAligned]"
    by auto
  with h o1 o2 show ?thesis by blast
qed

subsection \<open>The reference band is copied, the other bands are resampled\<close>













subsection \<open>Failures in a batch of scenes\<close>












subsection \<open>Arrays: comparisons, reductions and shapes\<close>

lemmas arr_eval = ndvi_masked_def ndvi_ratio_def arr_add_def arr_sub_def arr_div_def
  broadcast2_def bdim_def nrows_def ncols_def stretch_def arr_eq_scalar_def set_where_def
  feq_def fsub_def flat_def nanmin_def nanmax_def fmin_def fmax_def in_unit_range_def
  np_where_def np_clip_def clip1_def flt_def

lemma fle_trans: "fle x y \<Longrightarrow> fle y z \<Longrightarrow> fle x z"
  by (cases x; cases y; cases z) auto

lemma fle_total: "x \<noteq> NaN \<Longrightarrow> y \<noteq> NaN \<Longrightarrow> fle x y \<or> fle y x"
  by (cases x; cases y) auto

lemma fle_refl: "x \<noteq> NaN \<Longrightarrow> fle x x"
  by (cases x) auto

lemma fle_not_NaN: "fle x y \<Longrightarrow> x \<noteq> NaN \<and> y \<noteq> NaN"
  by (cases x; cases y) auto

lemma fmin_le_right: "s \<noteq> NaN \<Longrightarrow> fle (fmin y s) s"
  using fle_total [of y s] by (auto simp: fmin_def fle_refl)

lemma fmin_le_left: "y \<noteq> NaN \<Longrightarrow> fle (fmin y s) y"
  using fle_total [of y s] by (auto simp: fmin_def fle_refl)

lemma fmax_ge_right: "s \<noteq> NaN \<Longrightarrow> fle s (fmax y s)"
  using fle_total [of y s] by (auto simp: fmax_def fle_refl)

lemma fmax_ge_left: "y \<noteq> NaN \<Longrightarrow> fle y (fmax y s)"
  using fle_total [of y s] by (auto simp: fmax_def fle_refl)

lemma fold_fmin_le_acc: "s \<noteq> NaN \<Longrightarrow> fle (fold fmin ss s) s"
proof (induction ss arbitrary: s)
  case Nil
  then show ?case by (simp add: fle_refl)
next
  case (Cons y ss)
  have "fle (fmin y s) s" using Cons.prems by (rule fmin_le_right)
  moreover from this have "fle (fold fmin ss (fmin y s)) (fmin y s)"
    using Cons.IH fle_not_NaN by blast
  ultimately show ?case using fle_trans by simp
qed

lemma fold_fmin_le_elem: "x \<in> set ss \<Longrightarrow> x \<noteq> NaN \<Longrightarrow> fle (fold fmin ss s) x"
proof (induction ss arbitrary: s)
  case Nil
  then show ?case by simp
next
  case (Cons y ss)
  show ?case
  proof (cases "x = y")
    case True
    then have "fle (fmin y s) x" using Cons.prems(2) fmin_le_left by simp
    moreover from this have "fle (fold fmin ss (fmin y s)) (fmin y s)"
      using fold_fmin_le_acc fle_not_NaN by blast
    ultimately show ?thesis using fle_trans by simp
  next
    case False
    with Cons.prems have "x \<in> set ss" by simp
    from Cons.IH [OF this Cons.prems(2)] show ?thesis by simp
  qed
qed

lemma fold_fmax_ge_acc: "s \<noteq> NaN \<Longrightarrow> fle s (fold fmax ss s)"
proof (induction ss arbitrary: s)
  case Nil
  then show ?case by (simp add: fle_refl)
next
  case (Cons y ss)
  have "fle s (fmax y s)" using Cons.prems by (rule fmax_ge_right)
  moreover from this have "fle (fmax y s) (fold fmax ss (fmax y s))"
    using Cons.IH fle_not_NaN by blast
  ultimately show ?case using fle_trans by simp
qed

lemma fold_fmax_ge_elem: "x \<in> set ss \<Longrightarrow> x \<noteq> NaN \<Longrightarrow> fle x (fold fmax ss s)"
proof (induction ss arbitrary: s)
  case Nil
  then show ?case by simp
next
  case (Cons y ss)
  show ?case
  proof (cases "x = y")
    case True
    then have "fle x (fmax y s)" using Cons.prems(2) fmax_ge_left by simp
    moreover from this have "fle (fmax y s) (fold fmax ss (fmax y s))"
      using fold_fmax_ge_acc fle_not_NaN by blast
    ultimately show ?thesis using fle_trans by simp
  next
    case False
    with Cons.prems have "x \<in> set ss" by simp
    from Cons.IH [OF this Cons.prems(2)] show ?thesis by simp
  qed
qed

lemma nanmin_le:
  assumes "nanmin a = Inr lo" and "row \<in> set a" and "x \<in> set row" and "x \<noteq> NaN"
  shows "fle lo x"
proof -
  from assms(2,3) have mem: "x \<in> set (concat a)" by auto
  then obtain s ss where c: "concat a = s # ss" by (cases "concat a") auto
  with assms(1) have lo: "lo = fold fmin ss s" by (simp add: nanmin_def)
  from mem c have "x = s \<or> x \<in> set ss" by simp
  then show ?thesis
    using lo assms(4) fold_fmin_le_acc fold_fmin_le_elem by blast
qed

lemma nanmax_ge:
  assumes "nanmax a = Inr hi" and "row \<in> set a" and "x \<in> set row" and "x \<noteq> NaN"
  shows "fle x hi"
proof -
  from assms(2,3) have mem: "x \<in> set (concat a)" by auto
  then obtain s ss where c: "concat a = s # ss" by (cases "concat a") auto
  with assms(1) have hi: "hi = fold fmax ss s" by (simp add: nanmax_def)
  from mem c have "x = s \<or> x \<in> set ss" by simp
  then show ?thesis
    using hi assms(4) fold_fmax_ge_acc fold_fmax_ge_elem by blast
qed

lemma nan_reduce_nonempty:
  assumes "row \<in> set a" and "x \<in> set row"
  shows "\<exists>lo hi. nanmin a = Inr lo \<and> nanmax a = Inr hi"
proof -
  from assms have "x \<in> set (concat a)" by auto
  then obtain s ss where "concat a = s # ss" by (cases "concat a") auto
  then show ?thesis by (simp add: nanmin_def nanmax_def)
qed

lemma clip1_range: "clip1 (Fin (- 1)) (Fin 1) s \<noteq> NaN \<Longrightarrow> in_unit_range (clip1 (Fin (- 1)) (Fin 1) s)"
  by (cases s) (auto simp: clip1_def in_unit_range_def flt_def)

lemma zip_memD: "p \<in> set (zip x y) \<Longrightarrow> fst p \<in> set x \<and> snd p \<in> set y"
  by (cases p) (auto dest: set_zip_leftD set_zip_rightD)

lemma rect_map2: "rect h w x \<Longrightarrow> rect h w y \<Longrightarrow> rect h w (map2 (\<lambda>rx ry. map2 f rx ry) x y)"
proof -
  assume x: "rect h w x" and y: "rect h w y"
  have "length (case p of (rx, ry) \<Rightarrow> map2 f rx ry) = w" if "p \<in> set (zip x y)" for p
  proof -
    from zip_memD [OF that] x y have "length (fst p) = w" "length (snd p) = w"
      by (auto simp: rect_def)
    then show ?thesis by (cases p) simp
  qed
  with x y show ?thesis by (auto simp: rect_def)
qed

lemma rect_map: "rect h w x \<Longrightarrow> rect h w (map (map f) x)"
  by (auto simp: rect_def)

lemma rect_nth_map2:
  "rect h w x \<Longrightarrow> rect h w y \<Longrightarrow> i < h \<Longrightarrow> j < w \<Longrightarrow>
   map2 (\<lambda>rx ry. map2 f rx ry) x y ! i ! j = f (x ! i ! j) (y ! i ! j)"
  by (auto simp: rect_def)

lemma broadcast2_rect:
  assumes "rect h w x" and "rect h w y"
  shows "broadcast2 f x y = Inr (map2 (\<lambda>rx ry. map2 f rx ry) x y)"
proof (cases x)
  case Nil
  with assms have "y = []" by (auto simp: rect_def)
  with Nil show ?thesis by (simp add: broadcast2_def bdim_def nrows_def ncols_def stretch_def)
next
  case (Cons r rs)
  with assms obtain r' rs' where y: "y = r' # rs'" by (cases y) (auto simp: rect_def)
  from assms Cons y have nc: "ncols x = w" "ncols y = w" and nr: "nrows x = h" "nrows y = h"
    by (auto simp: rect_def ncols_def nrows_def)
  have "map2 (\<lambda>rx ry. map2 f (stretch w rx) (stretch w ry)) x y = map2 (\<lambda>rx ry. map2 f rx ry) x y"
  proof (rule map_cong [OF refl])
    fix p assume "p \<in> set (zip x y)"
    then have "fst p \<in> set x" "snd p \<in> set y"
      using zip_memD by blast+
    with assms have "length (fst p) = w" "length (snd p) = w" by (auto simp: rect_def)
    then show "(case p of (rx, ry) \<Rightarrow> map2 f (stretch w rx) (stretch w ry)) =
               (case p of (rx, ry) \<Rightarrow> map2 f rx ry)"
      by (cases p) (simp add: stretch_def)
  qed
  moreover have "stretch h x = x" "stretch h y = y"
    using assms by (simp_all add: stretch_def rect_def)
  ultimately show ?thesis
    by (simp add: broadcast2_def bdim_def nc nr)
qed

lemma ndvi_ratio_rect:
  assumes "rect h w nir" and "rect h w red"
  shows "ndvi_ratio nir red =
           Inr (map2 (\<lambda>rx ry. map2 fdiv rx ry)
                  (map2 (\<lambda>rx ry. map2 fsub rx ry) nir red)
                  (map2 (\<lambda>rx ry. map2 fadd rx ry) nir red))"
  using assms
  by (simp add: ndvi_ratio_def arr_sub_def arr_add_def arr_div_def broadcast2_rect [OF assms]
      broadcast2_rect [OF rect_map2 [OF assms] rect_map2 [OF assms]])

lemma broadcast2_error:
  "broadcast2 f x y = Inl e \<longleftrightarrow>
     e = ValueError \<and> (bdim (nrows x) (nrows y) = None \<or> bdim (ncols x) (ncols y) = None)"
  by (auto simp: broadcast2_def split: option.splits)

lemma rect_shape: "rect h w x \<Longrightarrow> 0 < h \<Longrightarrow> nrows x = h \<and> ncols x = w"
  by (cases x) (auto simp: rect_def nrows_def ncols_def)

lemma bdim_pos: "bdim m n = Some k \<Longrightarrow> 0 < m \<Longrightarrow> 0 < n \<Longrightarrow> 0 < k"
  by (auto simp: bdim_def split: if_splits)

lemma stretch_rows:
  assumes "rect h w x" and "0 < h" and "bdim h h' = Some H \<or> bdim h' h = Some H"
  shows "rect H w (stretch H x)"
proof (cases "length x = H")
  case True
  with assms(1) show ?thesis by (simp add: stretch_def rect_def)
next
  case False
  from assms(1,2) have "x \<noteq> []" by (auto simp: rect_def)
  then have "hd x \<in> set x" by simp
  with assms(1) have "length (hd x) = w" by (simp add: rect_def)
  with False show ?thesis by (simp add: stretch_def rect_def)
qed

lemma stretch_length:
  "length r = w \<Longrightarrow> bdim w w' = Some W \<or> bdim w' w = Some W \<Longrightarrow> length (stretch W r) = W"
  by (simp add: stretch_def)

lemma broadcast2_shape:
  assumes x: "rect h1 w1 x" and y: "rect h2 w2 y" and pos: "0 < h1" "0 < h2"
    and H: "bdim h1 h2 = Some H" and W: "bdim w1 w2 = Some W"
  shows "\<exists>a. broadcast2 f x y = Inr a \<and> rect H W a"
proof -
  from rect_shape [OF x pos(1)] rect_shape [OF y pos(2)]
  have sh: "nrows x = h1" "ncols x = w1" "nrows y = h2" "ncols y = w2" by auto
  let ?a = "map2 (\<lambda>rx ry. map2 f (stretch W rx) (stretch W ry)) (stretch H x) (stretch H y)"
  have b: "broadcast2 f x y = Inr ?a" by (simp add: broadcast2_def sh H W)
  have sx: "rect H w1 (stretch H x)" using stretch_rows [OF x pos(1)] H by blast
  have sy: "rect H w2 (stretch H y)" using stretch_rows [OF y pos(2)] H by blast
  have "length (case p of (rx, ry) \<Rightarrow> map2 f (stretch W rx) (stretch W ry)) = W"
    if "p \<in> set (zip (stretch H x) (stretch H y))" for p
  proof -
    from zip_memD [OF that] sx sy have "length (fst p) = w1" "length (snd p) = w2"
      by (auto simp: rect_def)
    then have "length (stretch W (fst p)) = W" "length (stretch W (snd p)) = W"
      using W stretch_length by blast+
    then show ?thesis by (cases p) simp
  qed
  with sx sy have "rect H W ?a" by (auto simp: rect_def)
  with b show ?thesis by blast
qed

lemma rect_concat_nonempty: "rect h w a \<Longrightarrow> 0 < h \<Longrightarrow> 0 < w \<Longrightarrow> concat a \<noteq> []"
  by (cases a) (auto simp: rect_def)

lemma ndvi_ratio_shape:
  assumes n: "rect h1 w1 nir" and r: "rect h2 w2 red" and pos: "0 < h1" "0 < h2"
    and H: "bdim h1 h2 = Some H" and W: "bdim w1 w2 = Some W"
  shows "\<exists>q s. ndvi_ratio nir red = Inr q \<and> arr_add nir red = Inr s \<and> rect H W q \<and> rect H W s"
proof -
  from broadcast2_shape [OF n r pos H W, of fsub] obtain num where
    num: "arr_sub nir red = Inr num" "rect H W num" by (auto simp: arr_sub_def)
  from broadcast2_shape [OF n r pos H W, of fadd] obtain den where
    den: "arr_add nir red = Inr den" "rect H W den" by (auto simp: arr_add_def)
  have "arr_div num den = Inr (map2 (\<lambda>rx ry. map2 fdiv rx ry) num den)"
    unfolding arr_div_def by (rule broadcast2_rect [OF num(2) den(2)])
  moreover have "rect H W (map2 (\<lambda>rx ry. map2 fdiv rx ry) num den)"
    by (rule rect_map2 [OF num(2) den(2)])
  ultimately show ?thesis using num den by (simp add: ndvi_ratio_def)
qed

lemma ndvi_masked_shape:
  assumes n: "rect h1 w1 nir" and r: "rect h2 w2 red" and pos: "0 < h1" "0 < h2"
    and H: "bdim h1 h2 = Some H" and W: "bdim w1 w2 = Some W"
  shows "\<exists>m. ndvi_masked nir red = Inr m \<and> rect H W m"
proof -
  from ndvi_ratio_shape [OF assms] obtain q s where
    q: "ndvi_ratio nir red = Inr q" "arr_add nir red = Inr s" "rect H W q" "rect H W s" by blast
  have "rect H W (arr_eq_scalar s (Fin 0))" unfolding arr_eq_scalar_def by (rule rect_map [OF q(4)])
  from rect_map2 [OF q(3) this] have "rect H W (set_where q (arr_eq_scalar s (Fin 0)) NaN)"
    by (simp add: set_where_def)
  with q show ?thesis by (simp add: ndvi_masked_def)
qed

lemma ndvi_zero_filled_shape:
  assumes n: "rect h1 w1 nir" and r: "rect h2 w2 red" and pos: "0 < h1" "0 < h2"
    and H: "bdim h1 h2 = Some H" and W: "bdim w1 w2 = Some W"
  shows "\<exists>z. ndvi_zero_filled nir red = Inr z \<and> rect H W z"
proof -
  from ndvi_ratio_shape [OF assms] obtain q s where
    q: "ndvi_ratio nir red = Inr q" "arr_add nir red = Inr s" "rect H W q" "rect H W s" by blast
  have c: "rect H W (arr_eq_scalar s (Fin 0))" unfolding arr_eq_scalar_def by (rule rect_map [OF q(4)])
  have "np_where (arr_eq_scalar s (Fin 0)) (Fin 0) q =
          Inr (map2 (\<lambda>rx ry. map2 (\<lambda>c s. if c then Fin 0 else s) rx ry) (arr_eq_scalar s (Fin 0)) q)"
    unfolding np_where_def by (rule broadcast2_rect [OF c q(3)])
  moreover have "rect H W (map2 (\<lambda>rx ry. map2 (\<lambda>c s. if c then Fin 0 else s) rx ry)
                    (arr_eq_scalar s (Fin 0)) q)"
    by (rule rect_map2 [OF c q(3)])
  ultimately show ?thesis using q by (simp add: ndvi_zero_filled_def)
qed

lemma ndvi_ratio_unbroadcastable:
  "bdim (nrows nir) (nrows red) = None \<or> bdim (ncols nir) (ncols red) = None \<Longrightarrow>
   ndvi_ratio nir red = Inl ValueError"
  by (auto simp: ndvi_ratio_def arr_sub_def broadcast2_def split: option.splits)

lemma nanmin_nanmax_rect:
  assumes "rect h w a" and "0 < h" and "0 < w"
  shows "\<exists>lo hi. nanmin a = Inr lo \<and> nanmax a = Inr hi"
proof -
  from rect_concat_nonempty [OF assms] obtain s ss where "concat a = s # ss"
    by (cases "concat a") auto
  then show ?thesis by (simp add: nanmin_def nanmax_def)
qed

lemma ndvi_asserted_outcome:
  assumes m: "ndvi_masked nir red = Inr m" and lo: "nanmin m = Inr lo" and hi: "nanmax m = Inr hi"
  shows "ndvi_asserted nir red =
           (if in_unit_range lo \<and> in_unit_range hi then Inr m else Inl AssertionError)"
  using assms by (simp add: ndvi_asserted_def)

lemma process_scene_ndvi_step:
  assumes "exists_path fsys (nir_path_of repo_root f)"
    and "align_band_to_reference lib fsys (nir_path_of repo_root f) (red_path_of repo_root f)
           (joinpath (aligned_dir repo_root) (str_replace ''_SR_B4.TIF'' [] f @ ''_B5_aligned.TIF'')) =
         Inr fs1"
    and "rio_open fs1 (red_path_of repo_root f) = Inr src"
  shows "process_scene lib repo_root f fsys =
           aligned_ndvi_step
             (rio_write fs1
                (joinpath (aligned_dir repo_root) (str_replace ''_SR_B4.TIF'' [] f @ ''_B4_aligned.TIF''))
                (ds_profile src) (ds_samples src))
             (joinpath (aligned_dir repo_root) (str_replace ''_SR_B4.TIF'' [] f @ ''_B4_aligned.TIF''))
             (joinpath (aligned_dir repo_root) (str_replace ''_SR_B4.TIF'' [] f @ ''_B5_aligned.TIF''))
             (joinpath (ndvi_output_dir repo_root)
                (''ndvi_aligned_'' @ str_replace ''_SR_B4.TIF'' [] f @ ''.tif''))"
  using assms
  by (simp add: process_scene_def aligned_ndvi_step_def nir_path_of_def red_path_of_def Let_def
      split: sum.splits)

lemma map2_fuse:
  "map2 f (map2 g xs ys) (map2 h xs ys) = map2 (\<lambda>a b. f (g a b) (h a b)) xs ys"
proof (induction xs arbitrary: ys)
  case Nil
  then show ?case by simp
next
  case (Cons x xs)
  then show ?case by (cases ys) simp_all
qed

lemma map_map2_fuse: "map f (map2 g xs ys) = map2 (\<lambda>a b. f (g a b)) xs ys"
proof (induction xs arbitrary: ys)
  case Nil
  then show ?case by simp
next
  case (Cons x xs)
  then show ?case by (cases ys) simp_all
qed

lemma ndvi_zero_filled_rect:
  assumes "rect h w nir" and "rect h w red"
  shows "ndvi_zero_filled nir red = Inr (map2 (\<lambda>rn rr. map2 zero_filled_px rn rr) nir red)"
proof -
  let ?q = "map2 (\<lambda>rx ry. map2 fdiv rx ry)
              (map2 (\<lambda>rx ry. map2 fsub rx ry) nir red)
              (map2 (\<lambda>rx ry. map2 fadd rx ry) nir red)"
  let ?s = "map2 (\<lambda>rx ry. map2 fadd rx ry) nir red"
  let ?c = "arr_eq_scalar ?s (Fin 0)"
  have q: "rect h w ?q" by (intro rect_map2 assms)
  have s: "rect h w ?s" by (intro rect_map2 assms)
  have c: "rect h w ?c" unfolding arr_eq_scalar_def by (intro rect_map s)
  have add: "arr_add nir red = Inr ?s"
    by (simp add: arr_add_def broadcast2_rect [OF assms])
  have z: "ndvi_zero_filled nir red =
             Inr (map2 (\<lambda>rx ry. map2 (\<lambda>c s. if c then Fin 0 else s) rx ry) ?c ?q)"
    by (simp add: ndvi_zero_filled_def ndvi_ratio_rect [OF assms] add np_where_def
        broadcast2_rect [OF c q])
  have qf: "?q = map2 (\<lambda>rn rr. map2 (\<lambda>n r. fdiv (fsub n r) (fadd n r)) rn rr) nir red"
    by (simp add: map2_fuse)
  have "?c = map2 (\<lambda>rn rr. map (\<lambda>s. feq s (Fin 0)) (map2 fadd rn rr)) nir red"
    unfolding arr_eq_scalar_def by (rule map_map2_fuse)
  then have cf: "?c = map2 (\<lambda>rn rr. map2 (\<lambda>n r. feq (fadd n r) (Fin 0)) rn rr) nir red"
    by (simp only: map_map2_fuse)
  have "map2 (\<lambda>rx ry. map2 (\<lambda>c s. if c then Fin 0 else s) rx ry) ?c ?q =
          map2 (\<lambda>rn rr. map2 zero_filled_px rn rr) nir red"
    unfolding qf cf by (simp add: map2_fuse zero_filled_px_def [abs_def])
  with z show ?thesis by simp
qed

lemma zero_filled_px_nonneg:
  "0 \<le> a \<Longrightarrow> 0 \<le> b \<Longrightarrow> in_unit_range (zero_filled_px (Fin a) (Fin b))"
  by (auto simp: zero_filled_px_def feq_def fsub_def in_unit_range_def divide_le_eq le_divide_eq)

lemma nonneg_sample:
  assumes "nonneg a" and "row \<in> set a" and "s \<in> set row"
  shows "\<exists>v. s = Fin v \<and> 0 \<le> v"
proof -
  from assms have "case s of Fin v \<Rightarrow> 0 \<le> v | _ \<Rightarrow> False"
    unfolding nonneg_def by blast
  then show ?thesis by (cases s) simp_all
qed

lemma zero_filled_nonneg_in_range:
  assumes "nonneg nir" and "nonneg red"
  shows "all_in_range (map2 (\<lambda>rn rr. map2 zero_filled_px rn rr) nir red)"
  unfolding all_in_range_def
proof (intro ballI impI)
  fix row s
  assume "row \<in> set (map2 (\<lambda>rn rr. map2 zero_filled_px rn rr) nir red)" and s: "s \<in> set row"
  then obtain p where p: "p \<in> set (zip nir red)" and row: "row = map2 zero_filled_px (fst p) (snd p)"
    by (auto simp: case_prod_beta)
  from s row obtain e where e: "e \<in> set (zip (fst p) (snd p))" and se: "s = zero_filled_px (fst e) (snd e)"
    by (auto simp: case_prod_beta)
  from zip_memD [OF p] zip_memD [OF e]
  have "fst p \<in> set nir" "fst e \<in> set (fst p)" "snd p \<in> set red" "snd e \<in> set (snd p)" by auto
  with assms obtain a b where "fst e = Fin a" "0 \<le> a" "snd e = Fin b" "0 \<le> b"
    using nonneg_sample by metis
  with se show "in_unit_range s" by (simp add: zero_filled_px_nonneg)
qed

lemma np_clip_in_range: "all_in_range (np_clip m (Fin (- 1)) (Fin 1))"
  by (auto simp: all_in_range_def np_clip_def clip1_range)

lemma ndvi_zero_filled_error:
  "ndvi_zero_filled nir red = Inl e \<Longrightarrow> e = ValueError"
  by (auto simp: ndvi_zero_filled_def ndvi_ratio_def arr_sub_def arr_add_def arr_div_def np_where_def
      broadcast2_error split: sum.splits)

subsection \<open>The range of the index\<close>

text \<open>
  C1, as the code has it. In the index that \<^verbatim>\<open>src/vegetation-ortho.py\<close> goes on to
  write, every sample that is not NaN lies in the closed interval from -1 to 1, for every
  pair of input bands: the script asserts it, and it fails with the \<open>AssertionError\<close> of
  its range assertion whenever a sample of the masked index that is not NaN lies outside the
  interval. The \<^verbatim>\<open>vegetation-ortho.py\<close> at the top of the repository asserts nothing:
  it clips the masked index, so that its index lies in the interval as well, and it fails
  only when the masked index cannot be computed, with the \<open>ValueError\<close> of numpy.
  \<^verbatim>\<open>process_aligned_ndvi\<close> neither asserts nor clips: for two bands of one shape its
  index is, sample by sample, 0 where \<^verbatim>\<open>nir + red\<close> is zero and the quotient
  otherwise; that index lies in the interval when every sample of both bands is finite and
  not negative; and its only failure is the \<open>ValueError\<close> of numpy.
\<close>

theorem ndvi_range_by_script:
  "(ndvi_asserted nir red = Inr ndvi \<longrightarrow> all_in_range ndvi) \<and>
   (ndvi_masked nir red = Inr ndvi \<and> \<not> all_in_range ndvi \<longrightarrow>
      ndvi_asserted nir red = Inl AssertionError) \<and>
   (ndvi_masked nir red = Inr ndvi \<longrightarrow>
      ndvi_clipped nir red = Inr (np_clip ndvi (Fin (- 1)) (Fin 1)) \<and>
      all_in_range (np_clip ndvi (Fin (- 1)) (Fin 1))) \<and>
   (\<forall>e. ndvi_clipped nir red = Inl e \<longrightarrow> ndvi_masked nir red = Inl e \<and> e = ValueError) \<and>
   (rect h w nir \<and> rect h w red \<longrightarrow>
      ndvi_zero_filled nir red = Inr (map2 (\<lambda>rn rr. map2 zero_filled_px rn rr) nir red)) \<and>
   (rect h w nir \<and> rect h w red \<and> nonneg nir \<and> nonneg red \<longrightarrow>
      (\<exists>z. ndvi_zero_filled nir red = Inr z \<and> all_in_range z)) \<and>
   (\<forall>e. ndvi_zero_filled nir red = Inl e \<longrightarrow> e = ValueError)"
proof (intro conjI impI allI)
  assume a: "ndvi_asserted nir red = Inr ndvi"
  then obtain lo hi where m: "ndvi_masked nir red = Inr ndvi"
    and lo: "nanmin ndvi = Inr lo" "in_unit_range lo"
    and hi: "nanmax ndvi = Inr hi" "in_unit_range hi"
    by (auto simp: ndvi_asserted_def split: sum.splits if_splits)
  show "all_in_range ndvi"
    unfolding all_in_range_def
  proof (intro ballI impI)
    fix row s assume rs: "row \<in> set ndvi" "s \<in> set row" "s \<noteq> NaN"
    have "fle lo s" using lo(1) rs by (rule nanmin_le)
    moreover have "fle s hi" using hi(1) rs by (rule nanmax_ge)
    ultimately show "in_unit_range s"
      using lo(2) hi(2) fle_trans unfolding in_unit_range_def by blast
  qed
next
  assume a: "ndvi_masked nir red = Inr ndvi \<and> \<not> all_in_range ndvi"
  then obtain row s where rs: "row \<in> set ndvi" "s \<in> set row" "s \<noteq> NaN" "\<not> in_unit_range s"
    by (auto simp: all_in_range_def)
  from nan_reduce_nonempty [OF rs(1,2)] obtain lo hi where
    lo: "nanmin ndvi = Inr lo" and hi: "nanmax ndvi = Inr hi" by blast
  have "fle lo s" using lo rs(1-3) by (rule nanmin_le)
  moreover have "fle s hi" using hi rs(1-3) by (rule nanmax_ge)
  ultimately have "\<not> (in_unit_range lo \<and> in_unit_range hi)"
    using rs(4) fle_trans unfolding in_unit_range_def by blast
  with a lo hi show "ndvi_asserted nir red = Inl AssertionError"
    by (auto simp: ndvi_asserted_def)
next
  assume "ndvi_masked nir red = Inr ndvi"
  then show "ndvi_clipped nir red = Inr (np_clip ndvi (Fin (- 1)) (Fin 1))"
    by (simp add: ndvi_clipped_def)
next
  show "all_in_range (np_clip ndvi (Fin (- 1)) (Fin 1))" by (rule np_clip_in_range)
next
  fix e assume "ndvi_clipped nir red = Inl e"
  then show "ndvi_masked nir red = Inl e"
    by (auto simp: ndvi_clipped_def split: sum.splits)
next
  fix e assume "ndvi_clipped nir red = Inl e"
  then show "e = ValueError"
    by (auto simp: ndvi_clipped_def ndvi_masked_def ndvi_ratio_def arr_sub_def arr_add_def
        arr_div_def broadcast2_error split: sum.splits)
next
  assume "rect h w nir \<and> rect h w red"
  then show "ndvi_zero_filled nir red = Inr (map2 (\<lambda>rn rr. map2 zero_filled_px rn rr) nir red)"
    using ndvi_zero_filled_rect by blast
next
  assume "rect h w nir \<and> rect h w red \<and> nonneg nir \<and> nonneg red"
  then show "\<exists>z. ndvi_zero_filled nir red = Inr z \<and> all_in_range z"
    using ndvi_zero_filled_rect zero_filled_nonneg_in_range by blast
next
  fix e assume "ndvi_zero_filled nir red = Inl e"
  then show "e = ValueError" by (rule ndvi_zero_filled_error)
qed

theorem ndvi_range_by_script_witness:
  "ndvi_asserted (flat 300) (flat 100) = Inr (flat (1 / 2)) \<and> all_in_range (flat (1 / 2)) \<and>
   ndvi_masked [[Fin 3]] [[Fin (- 1)]] = Inr [[Fin 2]] \<and> \<not> all_in_range [[Fin 2]] \<and>
   ndvi_asserted [[Fin 3]] [[Fin (- 1)]] = Inl AssertionError \<and>
   ndvi_clipped [[Fin 3]] [[Fin (- 1)]] = Inr [[Fin 1]] \<and> all_in_range [[Fin 1]] \<and>
   ndvi_clipped [[Fin 1, Fin 2, Fin 3]] (flat 100) = Inl ValueError \<and>
   ndvi_masked [[Fin 1, Fin 2, Fin 3]] (flat 100) = Inl ValueError \<and>
   rect 2 2 (flat 300) \<and> rect 2 2 (flat 100) \<and> nonneg (flat 300) \<and> nonneg (flat 100) \<and>
   ndvi_zero_filled (flat 300) (flat 100) = Inr (flat (1 / 2)) \<and>
   ndvi_zero_filled [[Fin 1, Fin 2, Fin 3]] (flat 100) = Inl ValueError"
proof -
  have a: "ndvi_asserted (flat 300) (flat 100) = Inr (flat (1 / 2))"
    by (simp add: ndvi_asserted_def arr_eval)
  have m: "ndvi_masked [[Fin 3]] [[Fin (- 1)]] = Inr [[Fin 2]]"
    by (simp add: arr_eval)
  have n: "\<not> all_in_range [[Fin 2]]"
    by (simp add: all_in_range_def in_unit_range_def)
  have c: "ndvi_clipped [[Fin 1, Fin 2, Fin 3]] (flat 100) = Inl ValueError"
    by (simp add: ndvi_clipped_def arr_eval)
  have z: "ndvi_zero_filled [[Fin 1, Fin 2, Fin 3]] (flat 100) = Inl ValueError"
    by (simp add: ndvi_zero_filled_def arr_eval)
  have r: "rect 2 2 (flat 300)" "rect 2 2 (flat 100)" "nonneg (flat 300)" "nonneg (flat 100)"
    by (simp_all add: rect_def nonneg_def flat_def)
  note t1 = ndvi_range_by_script [of "flat 300" "flat 100" "flat (1 / 2)" 2 2]
  note t2 = ndvi_range_by_script [of "[[Fin 3]]" "[[Fin (- 1)]]" "[[Fin 2]]"]
  note t3 = ndvi_range_by_script [of "[[Fin 1, Fin 2, Fin 3]]" "flat 100"]
  from t1 a have r1: "all_in_range (flat (1 / 2))" by simp
  from t2 m n have r2: "ndvi_asserted [[Fin 3]] [[Fin (- 1)]] = Inl AssertionError" by simp
  from t2 m have r3: "ndvi_clipped [[Fin 3]] [[Fin (- 1)]] = Inr [[Fin 1]]" "all_in_range [[Fin 1]]"
    by (simp_all add: np_clip_def clip1_def flt_def)
  from t3 c have r4: "ndvi_masked [[Fin 1, Fin 2, Fin 3]] (flat 100) = Inl ValueError" by simp
  from t1 r have r5: "ndvi_zero_filled (flat 300) (flat 100) = Inr (flat (1 / 2))"
    by (simp add: flat_def zero_filled_px_def feq_def fsub_def)
  from a r1 m n r2 r3 c r4 r r5 z show ?thesis by blast
qed

text \<open>
  The counterexample: a near-infrared sample 3 and a red sample -1, whose quotient is 2.
  \<^verbatim>\<open>process_aligned_ndvi\<close> writes the index 2 and does not fail; the script at the top
  of the repository turns the 2 into 1 and does not fail either.
\<close>

theorem unchecked_index_counterexample:
  "ndvi_zero_filled [[Fin 3]] [[Fin (- 1)]] = Inr [[Fin 2]] \<and>
   \<not> all_in_range [[Fin 2]] \<and>
   aligned_ndvi_step negative_fs ''n_B4_aligned.TIF'' ''n_B5_aligned.TIF'' ''ndvi_aligned_n.tif'' =
     (Inr (NdviSaved ''ndvi_aligned_n.tif''),
      negative_fs(''ndvi_aligned_n.tif'' \<mapsto>
        Raster \<lparr>ds_profile = negative_profile\<lparr>p_dtype := Float32\<rparr>, ds_samples = [[Fin 2]]\<rparr>)) \<and>
   ndvi_masked [[Fin 3]] [[Fin (- 1)]] = Inr [[Fin 2]] \<and>
   ndvi_clipped [[Fin 3]] [[Fin (- 1)]] = Inr [[Fin 1]]"
  by (simp add: aligned_ndvi_step_def negative_fs_def rio_open_def rio_write_def
      ndvi_zero_filled_def ndvi_clipped_def arr_eval all_in_range_def)

subsection \<open>Samples whose sum is zero\<close>

text \<open>
  For two bands of one shape, each of the three scripts sets a sample whose
  \<^verbatim>\<open>nir + red\<close> is zero to its fill value: 0 in \<^verbatim>\<open>process_aligned_ndvi\<close>, NaN in the
  masked index of the two \<^verbatim>\<open>vegetation-ortho.py\<close> scripts, which stays NaN when it is
  clipped.
\<close>

lemma zero_sum_samples_get_fill:
  assumes "rect h w nir" and "rect h w red" and "i < h" and "j < w"
    and "feq (fadd (nir ! i ! j) (red ! i ! j)) (Fin 0)"
  shows "(\<exists>ndvi. ndvi_zero_filled nir red = Inr ndvi \<and> ndvi ! i ! j = Fin 0) \<and>
         (\<exists>ndvi. ndvi_masked nir red = Inr ndvi \<and> ndvi ! i ! j = NaN) \<and>
         (\<exists>ndvi. ndvi_clipped nir red = Inr ndvi \<and> ndvi ! i ! j = NaN)"
proof -
  let ?q = "map2 (\<lambda>rx ry. map2 fdiv rx ry)
                  (map2 (\<lambda>rx ry. map2 fsub rx ry) nir red)
                  (map2 (\<lambda>rx ry. map2 fadd rx ry) nir red)"
  let ?s = "map2 (\<lambda>rx ry. map2 fadd rx ry) nir red"
  let ?c = "arr_eq_scalar ?s (Fin 0)"
  have q: "rect h w ?q" by (intro rect_map2 assms)
  have s: "rect h w ?s" by (intro rect_map2 assms)
  have c: "rect h w ?c" unfolding arr_eq_scalar_def by (intro rect_map s)
  have sij: "?s ! i ! j = fadd (nir ! i ! j) (red ! i ! j)"
    by (rule rect_nth_map2 [OF assms(1-4)])
  have cij: "?c ! i ! j" using s assms(3,4,5) sij by (simp add: arr_eq_scalar_def rect_def)
  have add: "arr_add nir red = Inr ?s"
    by (simp add: arr_add_def broadcast2_rect [OF assms(1,2)])
  have z: "ndvi_zero_filled nir red = Inr (map2 (\<lambda>rx ry. map2 (\<lambda>c s. if c then Fin 0 else s) rx ry) ?c ?q)"
    by (simp add: ndvi_zero_filled_def ndvi_ratio_rect [OF assms(1,2)] add np_where_def
        broadcast2_rect [OF c q])
  have m: "ndvi_masked nir red = Inr (map2 (\<lambda>rx ry. map2 (\<lambda>s c. if c then NaN else s) rx ry) ?q ?c)"
    by (simp add: ndvi_masked_def ndvi_ratio_rect [OF assms(1,2)] add set_where_def)
  have zij: "map2 (\<lambda>rx ry. map2 (\<lambda>c s. if c then Fin 0 else s) rx ry) ?c ?q ! i ! j = Fin 0"
    using rect_nth_map2 [OF c q assms(3,4), of "\<lambda>c s. if c then Fin 0 else s"] cij by simp
  have mij: "map2 (\<lambda>rx ry. map2 (\<lambda>s c. if c then NaN else s) rx ry) ?q ?c ! i ! j = NaN"
    using rect_nth_map2 [OF q c assms(3,4), of "\<lambda>s c. if c then NaN else s"] cij by simp
  have mr: "rect h w (map2 (\<lambda>rx ry. map2 (\<lambda>s c. if c then NaN else s) rx ry) ?q ?c)"
    by (intro rect_map2 q c)
  have "np_clip (map2 (\<lambda>rx ry. map2 (\<lambda>s c. if c then NaN else s) rx ry) ?q ?c) (Fin (- 1)) (Fin 1) ! i ! j = NaN"
    using mr mij assms(3,4) by (simp add: np_clip_def rect_def clip1_def)
  with z m zij mij show ?thesis by (simp add: ndvi_clipped_def)
qed

text \<open>
  C2, at two bands that are zero everywhere. The masked index of
  \<^verbatim>\<open>src/vegetation-ortho.py\<close> is NaN everywhere, \<^verbatim>\<open>np.nanmin\<close> of it is NaN, and the
  range assertion fails: the script raises \<open>AssertionError\<close> and writes no index. The two
  other scripts return their fill value everywhere, NaN after clipping and 0 in
  \<^verbatim>\<open>process_aligned_ndvi\<close>.
\<close>

theorem all_zero_bands_fail_assertion:
  "ndvi_masked (flat 0) (flat 0) = Inr [[NaN, NaN], [NaN, NaN]] \<and>
   nanmin [[NaN, NaN], [NaN, NaN]] = Inr NaN \<and>
   ndvi_asserted (flat 0) (flat 0) = Inl AssertionError \<and>
   ndvi_scene zero_fs ''scene_B4.TIF'' ''scene_B5.TIF'' = Inl AssertionError \<and>
   ndvi_clipped (flat 0) (flat 0) = Inr [[NaN, NaN], [NaN, NaN]] \<and>
   ndvi_zero_filled (flat 0) (flat 0) = Inr (flat 0)"
  by (simp add: ndvi_scene_def rio_open_def zero_fs_def ndvi_asserted_def ndvi_clipped_def
      ndvi_zero_filled_def arr_eval)

subsection \<open>Bands on different grids\<close>

text \<open>
  C6, as the code has it. Neither \<^verbatim>\<open>src/vegetation-ortho.py\<close> nor
  \<^verbatim>\<open>process_aligned_ndvi\<close> compares the grids of its two bands. For two files that can
  be read and whose sample arrays are rectangular and not empty, the CRS, the transform and
  the declared size of the bands play no part in the outcome. The pass of
  \<^verbatim>\<open>src/vegetation-ortho.py\<close> fails with the \<open>ValueError\<close> of numpy exactly when the
  shapes of the two sample arrays cannot be broadcast together, with \<open>AssertionError\<close>
  exactly when its range assertion on the masked index fails, and in no other way; otherwise
  it produces the masked index, with the red band's profile and the type float32. The last
  part of the loop of \<^verbatim>\<open>process_aligned_ndvi\<close> fails exactly when the shapes cannot be
  broadcast together, with \<open>ValueError\<close>; otherwise it writes its index with the profile
  of the aligned red band and the type float32.
\<close>

theorem ndvi_ignores_grids:
  assumes "rio_open fsys red_path = Inr red_src" and "rio_open fsys nir_path = Inr nir_src"
    and "rect h_nir w_nir (ds_samples nir_src)" and "rect h_red w_red (ds_samples red_src)"
    and "0 < h_nir" and "0 < w_nir" and "0 < h_red" and "0 < w_red"
  shows
    "(ndvi_scene fsys red_path nir_path = Inl ValueError \<longleftrightarrow>
        bdim h_nir h_red = None \<or> bdim w_nir w_red = None) \<and>
     (ndvi_scene fsys red_path nir_path = Inl AssertionError \<longleftrightarrow>
        (\<exists>m lo hi. ndvi_masked (ds_samples nir_src) (ds_samples red_src) = Inr m \<and>
           nanmin m = Inr lo \<and> nanmax m = Inr hi \<and> \<not> (in_unit_range lo \<and> in_unit_range hi))) \<and>
     (\<forall>e. ndvi_scene fsys red_path nir_path = Inl e \<longrightarrow> e = ValueError \<or> e = AssertionError) \<and>
     (\<forall>prof ndvi. ndvi_scene fsys red_path nir_path = Inr (prof, ndvi) \<longleftrightarrow>
        prof = (ds_profile red_src)\<lparr>p_dtype := Float32\<rparr> \<and>
        ndvi_masked (ds_samples nir_src) (ds_samples red_src) = Inr ndvi \<and>
        (\<exists>lo hi. nanmin ndvi = Inr lo \<and> nanmax ndvi = Inr hi \<and>
           in_unit_range lo \<and> in_unit_range hi)) \<and>
     (fst (aligned_ndvi_step fsys red_path nir_path ndvi_output) = Inl ValueError \<longleftrightarrow>
        bdim h_nir h_red = None \<or> bdim w_nir w_red = None) \<and>
     (\<forall>e. fst (aligned_ndvi_step fsys red_path nir_path ndvi_output) = Inl e \<longrightarrow> e = ValueError) \<and>
     (\<forall>line fsys'. aligned_ndvi_step fsys red_path nir_path ndvi_output = (Inr line, fsys') \<longleftrightarrow>
        line = NdviSaved ndvi_output \<and>
        (\<exists>ndvi. ndvi_zero_filled (ds_samples nir_src) (ds_samples red_src) = Inr ndvi \<and>
           fsys' = rio_write fsys ndvi_output ((ds_profile red_src)\<lparr>p_dtype := Float32\<rparr>) ndvi))"
proof (cases "bdim h_nir h_red = None \<or> bdim w_nir w_red = None")
  case True
  from rect_shape [OF assms(3,5)] rect_shape [OF assms(4,7)] True
  have "bdim (nrows (ds_samples nir_src)) (nrows (ds_samples red_src)) = None \<or>
        bdim (ncols (ds_samples nir_src)) (ncols (ds_samples red_src)) = None" by simp
  from ndvi_ratio_unbroadcastable [OF this]
  have q: "ndvi_ratio (ds_samples nir_src) (ds_samples red_src) = Inl ValueError" .
  then have m: "ndvi_masked (ds_samples nir_src) (ds_samples red_src) = Inl ValueError"
    and z: "ndvi_zero_filled (ds_samples nir_src) (ds_samples red_src) = Inl ValueError"
    by (simp_all add: ndvi_masked_def ndvi_zero_filled_def)
  from m have s: "ndvi_scene fsys red_path nir_path = Inl ValueError"
    using assms(1,2) by (simp add: ndvi_scene_def ndvi_asserted_def)
  from z have a: "aligned_ndvi_step fsys red_path nir_path ndvi_output = (Inl ValueError, fsys)"
    using assms(1,2) by (simp add: aligned_ndvi_step_def)
  show ?thesis using True s a m z by simp
next
  case False
  then obtain H W where H: "bdim h_nir h_red = Some H" and W: "bdim w_nir w_red = Some W"
    by auto
  from ndvi_masked_shape [OF assms(3,4,5,7) H W] obtain m where
    m: "ndvi_masked (ds_samples nir_src) (ds_samples red_src) = Inr m" "rect H W m" by blast
  from ndvi_zero_filled_shape [OF assms(3,4,5,7) H W] obtain z where
    z: "ndvi_zero_filled (ds_samples nir_src) (ds_samples red_src) = Inr z" by blast
  have "0 < H" "0 < W"
    using bdim_pos [OF H assms(5,7)] bdim_pos [OF W assms(6,8)] by simp_all
  from nanmin_nanmax_rect [OF m(2) this] obtain lo hi where
    lo: "nanmin m = Inr lo" and hi: "nanmax m = Inr hi" by blast
  have s: "ndvi_scene fsys red_path nir_path =
             (if in_unit_range lo \<and> in_unit_range hi
              then Inr ((ds_profile red_src)\<lparr>p_dtype := Float32\<rparr>, m) else Inl AssertionError)"
    using assms(1,2) ndvi_asserted_outcome [OF m(1) lo hi] by (simp add: ndvi_scene_def)
  have a: "aligned_ndvi_step fsys red_path nir_path ndvi_output =
             (Inr (NdviSaved ndvi_output),
              rio_write fsys ndvi_output ((ds_profile red_src)\<lparr>p_dtype := Float32\<rparr>) z)"
    using assms(1,2) z by (simp add: aligned_ndvi_step_def)
  show ?thesis using False s a m(1) z lo hi by auto
qed

theorem ndvi_ignores_grids_witness:
  "rio_open mixed_fs ''scene_B4.TIF'' =
     Inr \<lparr>ds_profile = wgs84_profile 10, ds_samples = flat 100\<rparr> \<and>
   rio_open mixed_fs ''scene_B5.TIF'' = Inr \<lparr>ds_profile = utm_profile, ds_samples = flat 300\<rparr> \<and>
   rect 2 2 (flat 300) \<and> rect 2 2 (flat 100) \<and> bdim 2 2 = Some (2 :: nat) \<and>
   ndvi_scene mixed_fs ''scene_B4.TIF'' ''scene_B5.TIF'' =
     Inr ((wgs84_profile 10)\<lparr>p_dtype := Float32\<rparr>, flat (1 / 2)) \<and>
   aligned_ndvi_step mixed_fs ''scene_B4.TIF'' ''scene_B5.TIF'' ''ndvi.tif'' =
     (Inr (NdviSaved ''ndvi.tif''),
      rio_write mixed_fs ''ndvi.tif'' ((wgs84_profile 10)\<lparr>p_dtype := Float32\<rparr>) (flat (1 / 2))) \<and>
   rio_open odd_shape_fs ''scene_B4.TIF'' =
     Inr \<lparr>ds_profile = wgs84_profile 10, ds_samples = flat 100\<rparr> \<and>
   rio_open odd_shape_fs ''scene_B5.TIF'' =
     Inr \<lparr>ds_profile = (wgs84_profile 10)\<lparr>p_width := 3, p_height := 1\<rparr>,
          ds_samples = [[Fin 1, Fin 2, Fin 3]]\<rparr> \<and>
   rect 1 3 [[Fin 1, Fin 2, Fin 3]] \<and> bdim 3 2 = None \<and>
   ndvi_scene odd_shape_fs ''scene_B4.TIF'' ''scene_B5.TIF'' = Inl ValueError \<and>
   fst (aligned_ndvi_step odd_shape_fs ''scene_B4.TIF'' ''scene_B5.TIF'' ''ndvi.tif'') =
     Inl ValueError"
proof -
  have o1: "rio_open mixed_fs ''scene_B4.TIF'' =
              Inr \<lparr>ds_profile = wgs84_profile 10, ds_samples = flat 100\<rparr>"
    and o2: "rio_open mixed_fs ''scene_B5.TIF'' =
              Inr \<lparr>ds_profile = utm_profile, ds_samples = flat 300\<rparr>"
    by (simp_all add: rio_open_def mixed_fs_def)
  have o3: "rio_open odd_shape_fs ''scene_B4.TIF'' =
              Inr \<lparr>ds_profile = wgs84_profile 10, ds_samples = flat 100\<rparr>"
    and o4: "rio_open odd_shape_fs ''scene_B5.TIF'' =
              Inr \<lparr>ds_profile = (wgs84_profile 10)\<lparr>p_width := 3, p_height := 1\<rparr>,
                   ds_samples = [[Fin 1, Fin 2, Fin 3]]\<rparr>"
    by (simp_all add: rio_open_def odd_shape_fs_def)
  have r: "rect 2 2 (flat 300)" "rect 2 2 (flat 100)" "rect 1 3 [[Fin 1, Fin 2, Fin 3]]"
    by (simp_all add: rect_def flat_def)
  have b: "bdim 2 2 = Some (2 :: nat)" "bdim 3 2 = None" by (simp_all add: bdim_def)
  have z: "ndvi_zero_filled (flat 300) (flat 100) = Inr (flat (1 / 2))"
    by (simp add: ndvi_zero_filled_def arr_eval)
  have m: "ndvi_masked (flat 300) (flat 100) = Inr (flat (1 / 2))"
    "nanmin (flat (1 / 2)) = Inr (Fin (1 / 2))" "nanmax (flat (1 / 2)) = Inr (Fin (1 / 2))"
    "in_unit_range (Fin (1 / 2))"
    by (simp_all add: arr_eval)
  have p: "(0 :: nat) < 1" "(0 :: nat) < 2" "(0 :: nat) < 3" by simp_all
  note t1 = ndvi_ignores_grids [OF o1 o2 _ _ p(2) p(2) p(2) p(2), of "''ndvi.tif''"]
  from t1 r b m have s1: "ndvi_scene mixed_fs ''scene_B4.TIF'' ''scene_B5.TIF'' =
     Inr ((wgs84_profile 10)\<lparr>p_dtype := Float32\<rparr>, flat (1 / 2))"
    by auto
  from t1 r b z have s2: "aligned_ndvi_step mixed_fs ''scene_B4.TIF'' ''scene_B5.TIF'' ''ndvi.tif'' =
     (Inr (NdviSaved ''ndvi.tif''),
      rio_write mixed_fs ''ndvi.tif'' ((wgs84_profile 10)\<lparr>p_dtype := Float32\<rparr>) (flat (1 / 2)))"
    by auto
  from ndvi_ignores_grids [OF o3 o4 _ _ p(1) p(3) p(2) p(2), of "''ndvi.tif''"] r b
  have s3: "ndvi_scene odd_shape_fs ''scene_B4.TIF'' ''scene_B5.TIF'' = Inl ValueError"
    and s4: "fst (aligned_ndvi_step odd_shape_fs ''scene_B4.TIF'' ''scene_B5.TIF'' ''ndvi.tif'') =
     Inl ValueError"
    by simp_all
  from o1 o2 o3 o4 r b s1 s2 s3 s4 show ?thesis by blast
qed

text \<open>
  The counterexample: a red band in WGS84 and a near-infrared band in UTM, with different
  transforms. The pass does not fail; it returns an index on the red band's grid.
\<close>

theorem differing_grids_counterexample:
  "rio_open mixed_fs ''scene_B4.TIF'' =
     Inr \<lparr>ds_profile = wgs84_profile 10, ds_samples = flat 100\<rparr> \<and>
   rio_open mixed_fs ''scene_B5.TIF'' = Inr \<lparr>ds_profile = utm_profile, ds_samples = flat 300\<rparr> \<and>
   p_crs (wgs84_profile 10) \<noteq> p_crs utm_profile \<and>
   p_transform (wgs84_profile 10) \<noteq> p_transform utm_profile \<and>
   ndvi_scene mixed_fs ''scene_B4.TIF'' ''scene_B5.TIF'' =
     Inr ((wgs84_profile 10)\<lparr>p_dtype := Float32\<rparr>, flat (1 / 2))"
  by (simp add: ndvi_scene_def rio_open_def mixed_fs_def ndvi_asserted_def arr_eval
      wgs84_profile_def utm_profile_def)

end
